theory Spec2Isabelle
  imports Complex_Main
begin

section \<open>Cell values, rows and the host runtime\<close>

text \<open>
  The development embeds the row classification of \<^verbatim>\<open>excelProcessor.ts\<close>
  (\<^verbatim>\<open>parseDate\<close>, \<^verbatim>\<open>parseAmount\<close>, \<^verbatim>\<open>processData\<close>) in the later of its two copies, the
  one that reads a number between 1900 and 2100 as a year and guards the document
  check by the column mapping.

  Modelling decisions.
  \<^item> A JavaScript number is a \<^typ>\<open>real\<close>: arithmetic is exact, and \<^verbatim>\<open>NaN\<close> and the
    infinities are not cell values. Where a builtin yields \<^verbatim>\<open>NaN\<close> the model
    returns \<^const>\<open>None\<close>.
  \<^item> A string is a list of code units below 256.
  \<^item> A \<^verbatim>\<open>Date\<close> is either invalid or a local calendar date with the time of day
    in milliseconds; two dates compare by their position on the local time
    line (the time zone offset is taken to be constant).
  \<^item> A row is a finite map from column names to cells. The method call
    \<^verbatim>\<open>data[0]?.hasOwnProperty(col)\<close> is modelled with its failure on a row that has
    a column of that name; reading \<^verbatim>\<open>row[col]\<close> for a name that the row lacks and
    \<^verbatim>\<open>Object.prototype\<close> has is outside the model.
  \<^item> What the JavaScript runtime and the spreadsheet library provide and the
    repository does not define (number and date printing, \<^verbatim>\<open>parseFloat\<close>,
    \<^verbatim>\<open>XLSX.SSF.parse_date_code\<close>, \<^verbatim>\<open>new Date(string)\<close>, locale formatting) is
    a parameter of every function, the record \<open>host\<close>; the clock read by
    \<^verbatim>\<open>new Date()\<close> is a parameter too.
  \<^item> The number of years of the prescription rule is an integer.
  \<^item> The optional progress callback is advisory and is left out.
\<close>

datatype date = InvalidDate | DateAt int int int int
  \<comment> \<open>year, month index from 0, day of the month from 1, milliseconds into the day\<close>

datatype cell = CUndefined | CNull | CBool bool | CNum real | CStr string | CDate date

type_synonym row = "string \<rightharpoonup> cell"

record host =
  numToString :: "real \<Rightarrow> string"
  dateToString :: "date \<Rightarrow> string"
  parseFloat :: "string \<Rightarrow> real option"
  parse_date_code :: "real \<Rightarrow> (int \<times> int \<times> int) option"
  Date_of_string :: "string \<Rightarrow> date"
  toLocaleDateString :: "date \<Rightarrow> string"

text \<open>\<^verbatim>\<open>!value\<close> is the negation of \<open>truthy\<close>; \<^verbatim>\<open>row[col]\<close> of a column the row does
  not have is \<^verbatim>\<open>undefined\<close>; \<^verbatim>\<open>String(v)\<close> is \<open>toStr\<close>.\<close>

fun truthy :: "cell \<Rightarrow> bool" where
  "truthy CUndefined = False"
| "truthy CNull = False"
| "truthy (CBool b) = b"
| "truthy (CNum n) = (n \<noteq> 0)"
| "truthy (CStr s) = (s \<noteq> [])"
| "truthy (CDate d) = True"

definition getProp :: "row \<Rightarrow> string \<Rightarrow> cell" where
  "getProp r col = (case r col of None \<Rightarrow> CUndefined | Some v \<Rightarrow> v)"

datatype error = Error string | TypeError
  \<comment> \<open>what the source throws: \<^verbatim>\<open>new Error(message)\<close>, and the runtime's \<^verbatim>\<open>TypeError\<close>
      for a call of something that is no function\<close>

definition hasOwnProperty :: "row \<Rightarrow> string \<Rightarrow> error + bool" where
  \<comment> \<open>the method call \<^verbatim>\<open>row.hasOwnProperty(col)\<close>: the method comes from the prototype
      unless the row has a column named \<^verbatim>\<open>hasOwnProperty\<close>, whose cell is no function\<close>
  "hasOwnProperty r col =
     (if r ''hasOwnProperty'' \<noteq> None then Inl TypeError else Inr (r col \<noteq> None))"

fun toStr :: "host \<Rightarrow> cell \<Rightarrow> string" where
  "toStr h CUndefined = ''undefined''"
| "toStr h CNull = ''null''"
| "toStr h (CBool b) = (if b then ''true'' else ''false'')"
| "toStr h (CNum n) = numToString h n"
| "toStr h (CStr s) = s"
| "toStr h (CDate d) = dateToString h d"

definition orEmpty :: "cell \<Rightarrow> cell" where
  \<comment> \<open>\<^verbatim>\<open>value || ''\<close>\<close>
  "orEmpty v = (if truthy v then v else CStr [])"

section \<open>Strings\<close>

definition is_space :: "char \<Rightarrow> bool" where
  \<comment> \<open>white space and line terminators among the code units below 256\<close>
  "is_space c = (of_char c \<in> {9, 10, 11, 12, 13, 32, 160 :: nat})"

definition is_digit :: "char \<Rightarrow> bool" where
  "is_digit c = (48 \<le> (of_char c :: nat) \<and> (of_char c :: nat) \<le> 57)"

definition trim :: "string \<Rightarrow> string" where
  "trim s = rev (dropWhile is_space (rev (dropWhile is_space s)))"

definition upper_units :: "char \<Rightarrow> string" where
  \<comment> \<open>the upper-case form of one code unit; U+00B5 and U+00FF, whose upper-case
      forms are not below 256, are left as they are\<close>
  "upper_units c =
     (let n = (of_char c :: nat) in
      if (97 \<le> n \<and> n \<le> 122) \<or> (224 \<le> n \<and> n \<le> 254 \<and> n \<noteq> 247) then [char_of (n - 32)]
      else if n = 223 then ''SS''
      else [c])"

definition toUpperCase :: "string \<Rightarrow> string" where
  "toUpperCase s = concat (map upper_units s)"

fun startsWith :: "string \<Rightarrow> string \<Rightarrow> bool" where
  "startsWith s [] = True"
| "startsWith [] (k # ks) = False"
| "startsWith (c # cs) (k # ks) = (c = k \<and> startsWith cs ks)"

fun str_includes :: "string \<Rightarrow> string \<Rightarrow> bool" where
  \<comment> \<open>\<^verbatim>\<open>s.includes(k)\<close>: \<open>k\<close> occurs in \<open>s\<close> as a contiguous run\<close>
  "str_includes [] k = (k = [])"
| "str_includes (c # cs) k = (startsWith (c # cs) k \<or> str_includes cs k)"

definition parseInt :: "string \<Rightarrow> int" where
  \<comment> \<open>\<^verbatim>\<open>parseInt\<close> on a string of decimal digits, the only strings it is given\<close>
  "parseInt s = foldl (\<lambda>acc c. 10 * acc + int (of_char c - 48)) 0 s"

section \<open>Dates\<close>

definition is_leap :: "int \<Rightarrow> bool" where
  "is_leap y = (y mod 4 = 0 \<and> (y mod 100 \<noteq> 0 \<or> y mod 400 = 0))"

definition days_in_month :: "int \<Rightarrow> int \<Rightarrow> int" where
  "days_in_month y m =
     (if m = 1 then (if is_leap y then 29 else 28)
      else if m = 3 \<or> m = 5 \<or> m = 8 \<or> m = 10 then 30 else 31)"

text \<open>A day of the month outside the month is carried into the months before or
  after it, as \<^verbatim>\<open>MakeDay\<close> does when it adds \<^verbatim>\<open>date - 1\<close> days to the first of
  the month.\<close>

function day_carry :: "int \<Rightarrow> int \<Rightarrow> int \<Rightarrow> int \<times> int \<times> int" where
  "day_carry y m d =
     (if d < 1 then
        (if m = 0 then day_carry (y - 1) 11 (d + days_in_month (y - 1) 11)
         else day_carry y (m - 1) (d + days_in_month y (m - 1)))
      else if days_in_month y m < d then
        (if m = 11 then day_carry (y + 1) 0 (d - days_in_month y m)
         else day_carry y (m + 1) (d - days_in_month y m))
      else (y, m, d))"
  by pat_completeness auto
termination
  by (relation "measure (\<lambda>(y, m, d). if d < 1 then nat (32 - d) else nat d)")
     (auto simp: days_in_month_def)

definition MakeDay :: "int \<Rightarrow> int \<Rightarrow> int \<Rightarrow> int \<times> int \<times> int" where
  "MakeDay y m d = day_carry (y + m div 12) (m mod 12) d"

definition new_Date :: "int \<Rightarrow> int \<Rightarrow> int \<Rightarrow> date" where
  \<comment> \<open>\<^verbatim>\<open>new Date(y, m, d)\<close>: local midnight; a year from 0 to 99 counts from 1900\<close>
  "new_Date y m d =
     (case MakeDay (if 0 \<le> y \<and> y \<le> 99 then 1900 + y else y) m d of
        (y', m', d') \<Rightarrow> DateAt y' m' d' 0)"

fun date_less :: "date \<Rightarrow> date \<Rightarrow> bool" where
  \<comment> \<open>\<^verbatim>\<open>a < b\<close> on two dates; false when either is invalid\<close>
  "date_less (DateAt y1 m1 d1 t1) (DateAt y2 m2 d2 t2) =
     (y1 < y2 \<or> (y1 = y2 \<and> (m1 < m2 \<or> (m1 = m2 \<and> (d1 < d2 \<or> (d1 = d2 \<and> t1 < t2))))))"
| "date_less _ _ = False"

fun subtractYears :: "date \<Rightarrow> int \<Rightarrow> date" where
  \<comment> \<open>\<^verbatim>\<open>c = new Date(ref); c.setFullYear(c.getFullYear() - years)\<close>\<close>
  "subtractYears InvalidDate years = InvalidDate"
| "subtractYears (DateAt y m d t) years =
     (case MakeDay (y - years) m d of (y', m', d') \<Rightarrow> DateAt y' m' d' t)"

section \<open>Field parsers\<close>

definition four_digits :: "string \<Rightarrow> bool" where
  \<comment> \<open>\<^verbatim>\<open>/^\d{4}$/\<close>\<close>
  "four_digits s = (length s = 4 \<and> list_all is_digit s)"

fun date_pattern :: "char \<Rightarrow> nat \<Rightarrow> string \<Rightarrow> (string \<times> string \<times> string) option" where
  \<comment> \<open>digits, separator, two digits, separator, digits: the three groups of a
      match of \<^verbatim>\<open>/^(\d{n})S(\d{2})S(\d{m})$/\<close>, \<open>n\<close> the length of the first group\<close>
  "date_pattern sep n s =
     (let g1 = take n s; r1 = drop n s; g2 = take 2 (drop 1 r1); r2 = drop 3 r1; g3 = drop 1 r2 in
      if length g1 = n \<and> list_all is_digit g1 \<and> take 1 r1 = [sep]
         \<and> length g2 = 2 \<and> list_all is_digit g2 \<and> take 1 r2 = [sep]
         \<and> length g3 = 6 - n \<and> list_all is_digit g3
      then Some (g1, g2, g3) else None)"

definition parseDate :: "host \<Rightarrow> cell \<Rightarrow> date option" where
  "parseDate h v =
     (if \<not> truthy v then None
      else case v of
        CDate d \<Rightarrow> Some d
      | CNum n \<Rightarrow>
          if 1900 \<le> n \<and> n \<le> 2100 then Some (new_Date \<lfloor>n\<rfloor> 0 1)
          else (case parse_date_code h n of
                  Some (y, m, d) \<Rightarrow> Some (new_Date y (m - 1) d)
                | None \<Rightarrow> None)
      | CStr s \<Rightarrow>
          (let cleaned = trim s in
           if four_digits cleaned \<and> 1900 \<le> parseInt cleaned \<and> parseInt cleaned \<le> 2100
           then Some (new_Date (parseInt cleaned) 0 1)
           else case date_pattern (CHR ''/'') 2 cleaned of
             Some (g1, g2, g3) \<Rightarrow> Some (new_Date (parseInt g3) (parseInt g2 - 1) (parseInt g1))
           | None \<Rightarrow>
           (case date_pattern (CHR ''-'') 4 cleaned of
             Some (g1, g2, g3) \<Rightarrow> Some (new_Date (parseInt g1) (parseInt g2 - 1) (parseInt g3))
           | None \<Rightarrow>
           (case date_pattern (CHR ''-'') 2 cleaned of
             Some (g1, g2, g3) \<Rightarrow> Some (new_Date (parseInt g3) (parseInt g2 - 1) (parseInt g1))
           | None \<Rightarrow> None)))
      | _ \<Rightarrow> None)"

function stripCurrency :: "string \<Rightarrow> string" where
  \<comment> \<open>\<^verbatim>\<open>value.replace(/R\$\s*/g, '')\<close>\<close>
  "stripCurrency [] = []"
| "stripCurrency (c # cs) =
     (if c = CHR ''R'' \<and> take 1 cs = ''$'' then stripCurrency (dropWhile is_space (drop 1 cs))
      else c # stripCurrency cs)"
  by pat_completeness auto
termination
  by (relation "measure length")
     (auto simp: less_Suc_eq_le intro: order_trans [OF length_dropWhile_le])

fun replaceFirst :: "char \<Rightarrow> char \<Rightarrow> string \<Rightarrow> string" where
  \<comment> \<open>\<^verbatim>\<open>s.replace(a, b)\<close> with a string pattern: the first occurrence only\<close>
  "replaceFirst a b [] = []"
| "replaceFirst a b (c # cs) = (if c = a then b # cs else c # replaceFirst a b cs)"

definition parseAmount :: "host \<Rightarrow> cell \<Rightarrow> real" where
  "parseAmount h v =
     (if \<not> truthy v then 0
      else case v of
        CNum n \<Rightarrow> n
      | CStr s \<Rightarrow>
          (let cleaned = trim (stripCurrency s);
               cleaned =
                 (if CHR '','' \<in> set cleaned \<and> CHR ''.'' \<in> set cleaned
                  then replaceFirst (CHR '','') (CHR ''.'') (filter (\<lambda>c. c \<noteq> CHR ''.'') cleaned)
                  else if CHR '','' \<in> set cleaned
                  then replaceFirst (CHR '','') (CHR ''.'') cleaned
                  else cleaned)
           in case parseFloat h cleaned of None \<Rightarrow> 0 | Some num \<Rightarrow> num)
      | _ \<Rightarrow> 0)"

section \<open>Configuration\<close>

record ColumnMapping =
  debt_id :: string
  taxpayer_name :: string
  cpf_cnpj :: "string option"
  due_date :: string
  amount :: string
  tribute_type :: "string option"
  tax_year :: "string option"

record PrescriptionRules =
  prescription_enabled :: bool
  years :: int
  reference_date :: "string option"

record ImmunityRules =
  immunity_enabled :: bool
  immunity_keywords :: "string list"

record ExemptionRules =
  exemption_enabled :: bool
  amount_threshold :: real
  tributes :: "string list"

record IncompleteRules =
  incomplete_enabled :: bool
  incomplete_keywords :: "string list"
  check_cpf_cnpj :: bool

record CleansingConfig =
  mapping :: ColumnMapping
  prescription :: PrescriptionRules
  immunity :: ImmunityRules
  exemption :: ExemptionRules
  incomplete :: IncompleteRules

definition isMapped :: "string option \<Rightarrow> bool" where
  \<comment> \<open>an optional column name used as a condition: neither \<^verbatim>\<open>undefined\<close> nor empty\<close>
  "isMapped col = (case col of None \<Rightarrow> False | Some c \<Rightarrow> c \<noteq> [])"

section \<open>Classification of one row\<close>

text \<open>The status and the reason are the strings the source writes.\<close>

definition Valido :: string where
  "Valido = [CHR ''V'', CHR 0xE1, CHR ''l'', CHR ''i'', CHR ''d'', CHR ''o'']"

definition Prescrito :: string where
  "Prescrito = ''Prescrito''"

definition Imune :: string where
  "Imune = ''Imune''"

definition Isento :: string where
  "Isento = ''Isento''"

definition Dados_Incompletos :: string where
  "Dados_Incompletos = ''Dados Incompletos''"

definition motivo_prescrito :: "host \<Rightarrow> date \<Rightarrow> string" where
  "motivo_prescrito h cutoffDate = ''Vencimento anterior a '' @ toLocaleDateString h cutoffDate"

definition motivo_imune :: string where
  "motivo_imune = ''Entidade Imune identificada por palavra-chave''"

definition motivo_valor :: "host \<Rightarrow> real \<Rightarrow> string" where
  "motivo_valor h threshold = ''Valor abaixo de R$ '' @ numToString h threshold"

definition motivo_tributo :: string where
  "motivo_tributo = ''Tributo Isento''"

definition motivo_incompleto :: string where
  "motivo_incompleto =
     ''Nome ou CPF/CNPJ inv'' @ [CHR 0xE1] @ ''lido/gen'' @ [CHR 0xE9] @ ''rico''"

text \<open>The values derived from the row before the rules run.\<close>

definition tempDate :: "host \<Rightarrow> CleansingConfig \<Rightarrow> row \<Rightarrow> date option" where
  "tempDate h config r = parseDate h (getProp r (due_date (mapping config)))"

definition tempAmount :: "host \<Rightarrow> CleansingConfig \<Rightarrow> row \<Rightarrow> real" where
  "tempAmount h config r = parseAmount h (getProp r (amount (mapping config)))"

definition tempName :: "host \<Rightarrow> CleansingConfig \<Rightarrow> row \<Rightarrow> string" where
  "tempName h config r =
     toUpperCase (toStr h (orEmpty (getProp r (taxpayer_name (mapping config)))))"

definition tempDoc :: "host \<Rightarrow> CleansingConfig \<Rightarrow> row \<Rightarrow> string" where
  "tempDoc h config r =
     (case cpf_cnpj (mapping config) of
        Some col \<Rightarrow>
          if col \<noteq> [] then filter is_digit (toStr h (orEmpty (getProp r col))) else []
      | None \<Rightarrow> [])"

definition tempTribute :: "host \<Rightarrow> CleansingConfig \<Rightarrow> row \<Rightarrow> string" where
  "tempTribute h config r =
     (case tribute_type (mapping config) of
        Some col \<Rightarrow>
          if col \<noteq> [] then toUpperCase (toStr h (orEmpty (getProp r col))) else []
      | None \<Rightarrow> [])"

text \<open>Each rule is one \<^verbatim>\<open>if\<close> block of the source: it takes the pair of the
  variables \<^verbatim>\<open>status\<close> and \<^verbatim>\<open>motivo\<close> and returns the pair after the block.\<close>

definition refDate :: "host \<Rightarrow> date \<Rightarrow> CleansingConfig \<Rightarrow> date" where
  \<comment> \<open>the configured reference date, or the clock when none is configured\<close>
  "refDate h now config =
     (case reference_date (prescription config) of
        Some s \<Rightarrow> if s \<noteq> [] then Date_of_string h s else now
      | None \<Rightarrow> now)"

definition cutoffDate :: "host \<Rightarrow> date \<Rightarrow> CleansingConfig \<Rightarrow> date" where
  "cutoffDate h now config = subtractYears (refDate h now config) (years (prescription config))"

definition isPrescribed :: "host \<Rightarrow> date \<Rightarrow> CleansingConfig \<Rightarrow> row \<Rightarrow> bool" where
  \<comment> \<open>\<^verbatim>\<open>tempDate && tempDate < cutoffDate\<close>\<close>
  "isPrescribed h now config r =
     (case tempDate h config r of
        Some d \<Rightarrow> date_less d (cutoffDate h now config)
      | None \<Rightarrow> False)"

definition prescriptionCheck ::
  "host \<Rightarrow> date \<Rightarrow> CleansingConfig \<Rightarrow> row \<Rightarrow> string \<times> string \<Rightarrow> string \<times> string" where
  "prescriptionCheck h now config r st =
     (if prescription_enabled (prescription config) \<and> fst st = Valido then
        (if isPrescribed h now config r
         then (Prescrito, motivo_prescrito h (cutoffDate h now config))
         else st)
      else st)"

definition hasKeyword :: "string list \<Rightarrow> string \<Rightarrow> bool" where
  \<comment> \<open>\<^verbatim>\<open>keywords.map(k => k.toUpperCase()).some(keyword => name.includes(keyword))\<close>\<close>
  "hasKeyword keywords name = list_ex (\<lambda>keyword. str_includes name keyword) (map toUpperCase keywords)"

definition immunityCheck ::
  "host \<Rightarrow> CleansingConfig \<Rightarrow> row \<Rightarrow> string \<times> string \<Rightarrow> string \<times> string" where
  "immunityCheck h config r st =
     (if immunity_enabled (immunity config) \<and> fst st = Valido then
        (if hasKeyword (immunity_keywords (immunity config)) (tempName h config r)
         then (Imune, motivo_imune)
         else st)
      else st)"

definition belowThreshold :: "host \<Rightarrow> CleansingConfig \<Rightarrow> row \<Rightarrow> bool" where
  "belowThreshold h config r =
     (0 < amount_threshold (exemption config)
      \<and> tempAmount h config r < amount_threshold (exemption config))"

definition isExemptTribute :: "host \<Rightarrow> CleansingConfig \<Rightarrow> row \<Rightarrow> bool" where
  "isExemptTribute h config r =
     (tributes (exemption config) \<noteq> []
      \<and> tempTribute h config r \<in> set (map toUpperCase (tributes (exemption config))))"

definition exemptionCheck ::
  "host \<Rightarrow> CleansingConfig \<Rightarrow> row \<Rightarrow> string \<times> string \<Rightarrow> string \<times> string" where
  "exemptionCheck h config r st =
     (if exemption_enabled (exemption config) \<and> fst st = Valido then
        (let st1 = (if belowThreshold h config r
                    then (Isento, motivo_valor h (amount_threshold (exemption config)))
                    else st);
             st2 = (if isExemptTribute h config r then (Isento, motivo_tributo) else st1)
         in st2)
      else st)"

definition isBadName :: "host \<Rightarrow> CleansingConfig \<Rightarrow> row \<Rightarrow> bool" where
  "isBadName h config r =
     (hasKeyword (incomplete_keywords (incomplete config)) (tempName h config r)
      \<or> length (tempName h config r) < 3)"

definition isBadDoc :: "host \<Rightarrow> CleansingConfig \<Rightarrow> row \<Rightarrow> bool" where
  "isBadDoc h config r =
     (check_cpf_cnpj (incomplete config) \<and> isMapped (cpf_cnpj (mapping config))
      \<and> tempDoc h config r = [])"

definition incompleteCheck ::
  "host \<Rightarrow> CleansingConfig \<Rightarrow> row \<Rightarrow> string \<times> string \<Rightarrow> string \<times> string" where
  "incompleteCheck h config r st =
     (if incomplete_enabled (incomplete config) \<and> fst st = Valido then
        (if isBadName h config r \<or> isBadDoc h config r
         then (Dados_Incompletos, motivo_incompleto)
         else st)
      else st)"

definition classifyRow :: "host \<Rightarrow> date \<Rightarrow> CleansingConfig \<Rightarrow> row \<Rightarrow> string \<times> string" where
  \<comment> \<open>the body of the \<^verbatim>\<open>data.map\<close> callback up to its \<^verbatim>\<open>return\<close>; \<open>now\<close> is what
      \<^verbatim>\<open>new Date()\<close> reads while the row is processed\<close>
  "classifyRow h now config r =
     incompleteCheck h config r
       (exemptionCheck h config r
         (immunityCheck h config r
           (prescriptionCheck h now config r (Valido, []))))"

definition annotate :: "row \<Rightarrow> string \<times> string \<Rightarrow> row" where
  \<comment> \<open>\<^verbatim>\<open>{ ...row, Status_Higienizacao: status, Motivo_Higienizacao: motivo }\<close>\<close>
  "annotate r st =
     r(''Status_Higienizacao'' \<mapsto> CStr (fst st), ''Motivo_Higienizacao'' \<mapsto> CStr (snd st))"

section \<open>The run: validation, classification of every row, summary\<close>

record StatusCounts =
  count_Prescrito :: nat
  count_Imune :: nat
  count_Isento :: nat
  count_Dados_Incompletos :: nat
  count_Valido :: nat

record CleansingResult =
  total_records :: nat
  processed_records :: nat
  prescribed_count :: nat
  immune_count :: nat
  exempt_count :: nat
  incomplete_count :: nat
  valid_count :: nat
  total_amount_removed :: real
  total_amount_valid :: real

record ProcessResult =
  summary :: CleansingResult
  preview :: "row list"
  processedData :: "row list"

record tally =
  statusCounts :: StatusCounts
  totalRemoved :: real
  totalValid :: real

fun join :: "string \<Rightarrow> string list \<Rightarrow> string" where
  "join sep [] = []"
| "join sep [x] = x"
| "join sep (x # y # ys) = x @ sep @ join sep (y # ys)"

definition requiredCols :: "ColumnMapping \<Rightarrow> string list" where
  "requiredCols m = [debt_id m, taxpayer_name m, due_date m, amount m]"

definition firstRowHas :: "row list \<Rightarrow> string \<Rightarrow> error + bool" where
  \<comment> \<open>\<^verbatim>\<open>data[0]?.hasOwnProperty(col)\<close> as a condition: false when there is no row\<close>
  "firstRowHas data col = (case data of [] \<Rightarrow> Inr False | r # rs \<Rightarrow> hasOwnProperty r col)"

fun missingFrom :: "row list \<Rightarrow> string list \<Rightarrow> error + string list" where
  \<comment> \<open>\<^verbatim>\<open>cols.filter(col => col && !data[0]?.hasOwnProperty(col))\<close>: the columns are
      tested in order, an empty name is dropped without the call, and the first call
      that throws ends the filter\<close>
  "missingFrom data [] = Inr []"
| "missingFrom data (col # cols) =
     (if col = [] then missingFrom data cols
      else case firstRowHas data col of
        Inl e \<Rightarrow> Inl e
      | Inr present \<Rightarrow>
          (case missingFrom data cols of
             Inl e \<Rightarrow> Inl e
           | Inr rest \<Rightarrow> Inr (if present then rest else col # rest)))"

definition missingCols :: "row list \<Rightarrow> ColumnMapping \<Rightarrow> error + string list" where
  "missingCols data m = missingFrom data (requiredCols m)"

definition missingColsMessage :: "string list \<Rightarrow> string" where
  "missingColsMessage cols =
     ''Colunas n'' @ [CHR 0xE3] @ ''o encontradas: '' @ join '', '' cols"

definition countStatus :: "StatusCounts \<Rightarrow> cell \<Rightarrow> StatusCounts" where
  \<comment> \<open>the counter named by the status goes up by one; a status that names no
      counter changes nothing\<close>
  "countStatus counts status =
     (case status of
        CStr s \<Rightarrow>
          if s = Prescrito then counts\<lparr>count_Prescrito := count_Prescrito counts + 1\<rparr>
          else if s = Imune then counts\<lparr>count_Imune := count_Imune counts + 1\<rparr>
          else if s = Isento then counts\<lparr>count_Isento := count_Isento counts + 1\<rparr>
          else if s = Dados_Incompletos
            then counts\<lparr>count_Dados_Incompletos := count_Dados_Incompletos counts + 1\<rparr>
          else if s = Valido then counts\<lparr>count_Valido := count_Valido counts + 1\<rparr>
          else counts
      | _ \<Rightarrow> counts)"

definition tallyRow :: "host \<Rightarrow> ColumnMapping \<Rightarrow> tally \<Rightarrow> row \<Rightarrow> tally" where
  \<comment> \<open>one turn of the loop over \<^verbatim>\<open>processedData\<close>\<close>
  "tallyRow h m acc r =
     (let status = getProp r ''Status_Higienizacao'';
          counts = countStatus (statusCounts acc) status;
          amount = parseAmount h (getProp r (amount m))
      in if status \<noteq> CStr Valido
         then acc\<lparr>statusCounts := counts, totalRemoved := totalRemoved acc + amount\<rparr>
         else acc\<lparr>statusCounts := counts, totalValid := totalValid acc + amount\<rparr>)"

definition emptyTally :: tally where
  "emptyTally =
     \<lparr>statusCounts = \<lparr>count_Prescrito = 0, count_Imune = 0, count_Isento = 0,
                       count_Dados_Incompletos = 0, count_Valido = 0\<rparr>,
      totalRemoved = 0, totalValid = 0\<rparr>"

definition processRows ::
  "host \<Rightarrow> (nat \<Rightarrow> date) \<Rightarrow> CleansingConfig \<Rightarrow> row list \<Rightarrow> row list" where
  \<comment> \<open>\<^verbatim>\<open>data.map((row, index) => ...)\<close>; \<open>clock index\<close> is the time while row
      \<open>index\<close> is processed\<close>
  "processRows h clock config data =
     map (\<lambda>(index, r). annotate r (classifyRow h (clock index) config r)) (enumerate 0 data)"

definition summarize :: "host \<Rightarrow> ColumnMapping \<Rightarrow> nat \<Rightarrow> row list \<Rightarrow> CleansingResult" where
  "summarize h m totalRows rows =
     (let t = foldl (tallyRow h m) emptyTally rows in
      \<lparr>total_records = totalRows,
       processed_records = totalRows,
       prescribed_count = count_Prescrito (statusCounts t),
       immune_count = count_Imune (statusCounts t),
       exempt_count = count_Isento (statusCounts t),
       incomplete_count = count_Dados_Incompletos (statusCounts t),
       valid_count = count_Valido (statusCounts t),
       total_amount_removed = totalRemoved t,
       total_amount_valid = totalValid t\<rparr>)"

definition processData ::
  "host \<Rightarrow> (nat \<Rightarrow> date) \<Rightarrow> row list \<Rightarrow> CleansingConfig \<Rightarrow> error + ProcessResult" where
  "processData h clock data config =
     (let m = mapping config;
          totalRows = length data
      in case missingCols data m of
        Inl e \<Rightarrow> Inl e
      | Inr missing \<Rightarrow>
          if missing \<noteq> [] then Inl (Error (missingColsMessage missing))
          else
            (let rows = processRows h clock config data in
             Inr \<lparr>summary = summarize h m totalRows rows,
                  preview = take 100 rows,
                  processedData = rows\<rparr>))"

section \<open>The earlier copy of the module\<close>

text \<open>The sources hold two copies of the module. The later one, embedded above, adds
  to the earlier one the reading of a number or a four-digit string as a year and the
  trimming of date strings, the mapping guard of the document check, and the guard of
  the counter update. These are the earlier copy's versions of the two parts whose
  results differ.\<close>

definition parseDate_earlier :: "host \<Rightarrow> cell \<Rightarrow> date option" where
  "parseDate_earlier h v =
     (if \<not> truthy v then None
      else case v of
        CDate d \<Rightarrow> Some d
      | CNum n \<Rightarrow>
          (case parse_date_code h n of
             Some (y, m, d) \<Rightarrow> Some (new_Date y (m - 1) d)
           | None \<Rightarrow> None)
      | CStr s \<Rightarrow>
          (case date_pattern (CHR ''/'') 2 s of
             Some (g1, g2, g3) \<Rightarrow> Some (new_Date (parseInt g3) (parseInt g2 - 1) (parseInt g1))
           | None \<Rightarrow>
           (case date_pattern (CHR ''-'') 4 s of
             Some (g1, g2, g3) \<Rightarrow> Some (new_Date (parseInt g1) (parseInt g2 - 1) (parseInt g3))
           | None \<Rightarrow>
           (case date_pattern (CHR ''-'') 2 s of
             Some (g1, g2, g3) \<Rightarrow> Some (new_Date (parseInt g3) (parseInt g2 - 1) (parseInt g1))
           | None \<Rightarrow> None)))
      | _ \<Rightarrow> None)"

definition isBadDoc_earlier :: "host \<Rightarrow> CleansingConfig \<Rightarrow> row \<Rightarrow> bool" where
  "isBadDoc_earlier h config r =
     (check_cpf_cnpj (incomplete config) \<and> tempDoc h config r = [])"

section \<open>Notions used in the statements\<close>

definition countsSum :: "StatusCounts \<Rightarrow> nat" where
  "countsSum c =
     count_Valido c + count_Prescrito c + count_Imune c + count_Isento c
     + count_Dados_Incompletos c"

definition shadowsMethod :: "row list \<Rightarrow> bool" where
  \<comment> \<open>the first row has a column named \<^verbatim>\<open>hasOwnProperty\<close>\<close>
  "shadowsMethod data = (case data of [] \<Rightarrow> False | r # rs \<Rightarrow> r ''hasOwnProperty'' \<noteq> None)"

definition inFirstRow :: "row list \<Rightarrow> string \<Rightarrow> bool" where
  \<comment> \<open>there is a first row and the column is one of its keys\<close>
  "inFirstRow data col = (case data of [] \<Rightarrow> False | r # rs \<Rightarrow> r col \<noteq> None)"

definition annotationCols :: "string set" where
  "annotationCols = {''Status_Higienizacao'', ''Motivo_Higienizacao''}"

definition mappedCols :: "ColumnMapping \<Rightarrow> string list" where
  "mappedCols m =
     [due_date m, amount m, taxpayer_name m]
     @ (case cpf_cnpj m of Some c \<Rightarrow> [c] | None \<Rightarrow> [])
     @ (case tribute_type m of Some c \<Rightarrow> [c] | None \<Rightarrow> [])"

section \<open>A sample host\<close>

text \<open>The theorems below hold for every host. The examples run on this one: a
  runtime in the UTC time zone whose \<^verbatim>\<open>parseFloat\<close> reads decimal literals (not
  the word \<^verbatim>\<open>Infinity\<close>), whose \<^verbatim>\<open>new Date(string)\<close> reads the form
  \<^verbatim>\<open>YYYY-MM-DD\<close> only, which prints a number by its decimal expansion (the
  form of \<^verbatim>\<open>String(n)\<close> for a number with a short expansion and no exponent),
  and which prints every date as the \<^verbatim>\<open>pt-BR\<close> locale does. Its
  \<open>parse_date_code\<close> is the day part of the 1900 date system, with the
  serial 60 read as 29 February 1900.\<close>

function showNat :: "nat \<Rightarrow> string" where
  "showNat n = (if n < 10 then [char_of (48 + n)] else showNat (n div 10) @ [char_of (48 + n mod 10)])"
  by pat_completeness auto
termination
  by (relation "measure id") auto

fun fracDigits :: "nat \<Rightarrow> real \<Rightarrow> string" where
  "fracDigits 0 x = []"
| "fracDigits (Suc n) x =
     (if x = 0 then []
      else char_of (48 + nat \<lfloor>10 * x\<rfloor>) # fracDigits n (10 * x - of_int \<lfloor>10 * x\<rfloor>))"

definition showNum :: "real \<Rightarrow> string" where
  "showNum x =
     (let a = \<bar>x\<bar>; i = \<lfloor>a\<rfloor>; f = a - of_int i in
      (if x < 0 then ''-'' else []) @ showNat (nat i)
      @ (if f = 0 then [] else ''.'' @ fracDigits 20 f))"

definition pad2 :: "int \<Rightarrow> string" where
  "pad2 n = (if n < 10 then ''0'' @ showNat (nat n) else showNat (nat n))"

fun showDate :: "date \<Rightarrow> string" where
  "showDate InvalidDate = ''Invalid Date''"
| "showDate (DateAt y m d t) = pad2 d @ ''/'' @ pad2 (m + 1) @ ''/'' @ showNat (nat y)"

definition decimalExponent :: "string \<Rightarrow> int" where
  \<comment> \<open>the exponent part of a decimal literal, 0 when there is none\<close>
  "decimalExponent s =
     (if take 1 s = ''e'' \<or> take 1 s = ''E'' then
        (let r = drop 1 s;
             neg = (take 1 r = ''-'');
             ds = takeWhile is_digit (if neg \<or> take 1 r = ''+'' then drop 1 r else r)
         in if ds = [] then 0 else if neg then - parseInt ds else parseInt ds)
      else 0)"

definition decimalParseFloat :: "string \<Rightarrow> real option" where
  "decimalParseFloat s =
     (let s1 = dropWhile is_space s;
          neg = (take 1 s1 = ''-'');
          s2 = (if neg \<or> take 1 s1 = ''+'' then drop 1 s1 else s1);
          ip = takeWhile is_digit s2;
          r = dropWhile is_digit s2;
          fp = (if take 1 r = ''.'' then takeWhile is_digit (drop 1 r) else []);
          r2 = (if take 1 r = ''.'' then dropWhile is_digit (drop 1 r) else r);
          e = decimalExponent r2;
          m = of_int (parseInt ip) + of_int (parseInt fp) / 10 ^ length fp;
          v = (if e < 0 then m / 10 ^ nat (- e) else m * 10 ^ nat e)
      in if ip = [] \<and> fp = [] then None else Some (if neg then - v else v))"

definition serialDate :: "real \<Rightarrow> (int \<times> int \<times> int) option" where
  "serialDate v =
     (if v > 2958465 \<or> v < 0 then None
      else
        (let date = \<lfloor>v\<rfloor> in
         if date = 60 then Some (1900, 2, 29)
         else if date = 0 then Some (1900, 1, 0)
         else case MakeDay 1900 0 (if date > 60 then date - 1 else date) of
                (y, m, d) \<Rightarrow> Some (y, m + 1, d)))"

definition isoDate :: "string \<Rightarrow> date" where
  "isoDate s =
     (case date_pattern (CHR ''-'') 4 s of
        Some (g1, g2, g3) \<Rightarrow>
          (let y = parseInt g1; m = parseInt g2; d = parseInt g3 in
           if 1 \<le> m \<and> m \<le> 12 \<and> 1 \<le> d \<and> d \<le> days_in_month y (m - 1)
           then DateAt y (m - 1) d 0 else InvalidDate)
      | None \<Rightarrow> InvalidDate)"

definition sampleHost :: host where
  "sampleHost =
     \<lparr>numToString = showNum, dateToString = showDate, parseFloat = decimalParseFloat,
      parse_date_code = serialDate, Date_of_string = isoDate, toLocaleDateString = showDate\<rparr>"

section \<open>Sample data\<close>

definition sampleClock :: "nat \<Rightarrow> date" where
  \<comment> \<open>every row is processed on 15 June 2024\<close>
  "sampleClock i = DateAt 2024 5 15 0"

definition sampleMapping :: ColumnMapping where
  "sampleMapping =
     \<lparr>debt_id = ''Numero'', taxpayer_name = ''Nome'', cpf_cnpj = None,
      due_date = ''Vencimento'', amount = ''Valor'', tribute_type = None, tax_year = None\<rparr>"

definition sampleConfig :: CleansingConfig where
  "sampleConfig =
     \<lparr>mapping = sampleMapping,
      prescription = \<lparr>prescription_enabled = True, years = 5, reference_date = None\<rparr>,
      immunity = \<lparr>immunity_enabled = True, immunity_keywords = [''Municipio'', ''Templo'']\<rparr>,
      exemption = \<lparr>exemption_enabled = True, amount_threshold = 0, tributes = []\<rparr>,
      incomplete = \<lparr>incomplete_enabled = True,
                    incomplete_keywords = [''Ignorado'', ''Sem nome''],
                    check_cpf_cnpj = True\<rparr>\<rparr>"

definition rowNoDueDate :: row where
  "rowNoDueDate = [''ID'' \<mapsto> CNum 1, ''Nome'' \<mapsto> CStr ''Joao da Silva'', ''Valor'' \<mapsto> CNum 10]"

definition rowShadowed :: row where
  \<comment> \<open>the row above in a sheet that also has a column headed \<^verbatim>\<open>hasOwnProperty\<close>\<close>
  "rowShadowed = rowNoDueDate(''hasOwnProperty'' \<mapsto> CStr ''sim'')"

definition fifteenYearsConfig :: CleansingConfig where
  "fifteenYearsConfig =
     sampleConfig\<lparr>prescription :=
       \<lparr>prescription_enabled = True, years = 15, reference_date = None\<rparr>\<rparr>"

definition rowOldMunicipio :: row where
  \<comment> \<open>due ten years before the sample clock, and the name holds an immunity keyword\<close>
  "rowOldMunicipio =
     [''Numero'' \<mapsto> CNum 7, ''Nome'' \<mapsto> CStr ''Municipio de Campinas'',
      ''Vencimento'' \<mapsto> CStr ''15/06/2014'', ''Valor'' \<mapsto> CStr ''R$ 1.234,56'']"

definition rowPlain :: row where
  "rowPlain =
     [''Numero'' \<mapsto> CNum 8, ''Nome'' \<mapsto> CStr ''Joao da Silva'',
      ''Vencimento'' \<mapsto> CStr ''15/03/2023'', ''Valor'' \<mapsto> CNum 250]"

definition rowPaddedName :: row where
  "rowPaddedName = rowPlain(''Nome'' \<mapsto> CStr ''Jo   '')"

definition rowShortName :: row where
  "rowShortName = rowPlain(''Nome'' \<mapsto> CStr ''Jo'')"

definition rowEszett :: row where
  \<comment> \<open>a name of two code units, the first U+00DF\<close>
  "rowEszett = rowPlain(''Nome'' \<mapsto> CStr [CHR 0xDF, CHR ''a''])"

definition exemptConfig :: CleansingConfig where
  "exemptConfig =
     sampleConfig\<lparr>mapping := sampleMapping\<lparr>tribute_type := Some ''Tributo''\<rparr>,
                  exemption := \<lparr>exemption_enabled = True, amount_threshold = 100,
                                tributes = [''iptu'', ''iss'']\<rparr>\<rparr>"

definition rowSmallIptu :: row where
  "rowSmallIptu =
     [''Numero'' \<mapsto> CNum 9, ''Nome'' \<mapsto> CStr ''Maria Souza'',
      ''Vencimento'' \<mapsto> CStr ''2023-03-15'', ''Valor'' \<mapsto> CStr ''R$ 50,00'',
      ''Tributo'' \<mapsto> CStr ''Iptu'']"

definition rowOldSmallIptu :: row where
  "rowOldSmallIptu = rowSmallIptu(''Vencimento'' \<mapsto> CStr ''2010-03-15'')"

definition sampleRows :: "row list" where
  "sampleRows = [rowPlain, rowOldMunicipio, rowShortName]"

definition amountInStatusConfig :: CleansingConfig where
  "amountInStatusConfig = sampleConfig\<lparr>mapping := sampleMapping\<lparr>amount := ''Status_Higienizacao''\<rparr>\<rparr>"

definition rowAmountInStatus :: row where
  "rowAmountInStatus =
     [''Numero'' \<mapsto> CNum 3, ''Nome'' \<mapsto> CStr ''Joao da Silva'',
      ''Vencimento'' \<mapsto> CStr ''15/03/2023'', ''Status_Higienizacao'' \<mapsto> CNum 100]"

definition midMorning :: date where
  \<comment> \<open>15 June 2024 at 10:30\<close>
  "midMorning = DateAt 2024 5 15 37800000"

definition earlyClock :: "nat \<Rightarrow> date" where
  "earlyClock i = DateAt 2024 0 10 0"

definition refConfig :: CleansingConfig where
  "refConfig =
     sampleConfig\<lparr>prescription :=
       \<lparr>prescription_enabled = True, years = 5, reference_date = Some ''2024-06-15''\<rparr>\<rparr>"

definition rowDue2019 :: row where
  "rowDue2019 = rowPlain(''Vencimento'' \<mapsto> CStr ''15/03/2019'')"

section \<open>Evaluation of the calendar\<close>

lemma day_carry_in_month:
  "1 \<le> d \<Longrightarrow> d \<le> days_in_month y m \<Longrightarrow> day_carry y m d = (y, m, d)"
  by (subst day_carry.simps) simp

lemma day_carry_before:
  "d < 1 \<Longrightarrow> day_carry y m d =
     (if m = 0 then day_carry (y - 1) 11 (d + days_in_month (y - 1) 11)
      else day_carry y (m - 1) (d + days_in_month y (m - 1)))"
  by (subst day_carry.simps) simp

lemma day_carry_after:
  "1 \<le> d \<Longrightarrow> days_in_month y m < d \<Longrightarrow> day_carry y m d =
     (if m = 11 then day_carry (y + 1) 0 (d - days_in_month y m)
      else day_carry y (m + 1) (d - days_in_month y m))"
  by (subst day_carry.simps) simp

lemmas day_carry_eval =
  day_carry_in_month day_carry_before day_carry_after days_in_month_def is_leap_def

section \<open>The field parsers\<close>

text \<open>
  Claim C2. A number from 1900 to 2100 is read as a year: \<open>parseDate\<close> returns the
  first of January of that year, at local midnight, whatever the host's reading of the
  number as a serial date is. For a number with a fraction the year is its integer
  part. The example is the number 2019, which the serial reading of the sample host
  would place on 11 July 1905.
\<close>

theorem parseDate_year_number:
  assumes "1900 \<le> n" and "n \<le> 2100"
  shows "parseDate h (CNum n) = Some (DateAt \<lfloor>n\<rfloor> 0 1 0)"
proof -
  have fl: "1900 \<le> \<lfloor>n\<rfloor>" using assms(1) by (simp add: le_floor_iff)
  have "n \<noteq> 0" using assms(1) by auto
  moreover have "new_Date \<lfloor>n\<rfloor> 0 1 = DateAt \<lfloor>n\<rfloor> 0 1 0"
    using fl by (simp add: new_Date_def MakeDay_def day_carry_in_month days_in_month_def)
  ultimately show ?thesis using assms by (simp add: parseDate_def)
qed

theorem parseDate_year_number_witness:
  "parseDate sampleHost (CNum 2019) = Some (DateAt 2019 0 1 0)
   \<and> parse_date_code sampleHost 2019 = Some (1905, 7, 11)"
proof -
  have "parse_date_code sampleHost 2019 = Some (1905, 7, 11)"
    by (simp add: sampleHost_def serialDate_def MakeDay_def day_carry_eval)
  then show ?thesis using parseDate_year_number [of 2019 sampleHost] by simp
qed

section \<open>Validation of the column mapping\<close>

lemma firstRowHas_plain:
  "\<not> shadowsMethod data \<Longrightarrow> firstRowHas data col = Inr (inFirstRow data col)"
  by (cases data) (simp_all add: firstRowHas_def hasOwnProperty_def shadowsMethod_def inFirstRow_def)

lemma missingFrom_plain:
  "\<not> shadowsMethod data \<Longrightarrow>
     missingFrom data cols = Inr (filter (\<lambda>c. c \<noteq> [] \<and> \<not> inFirstRow data c) cols)"
  by (induction cols) (simp_all add: firstRowHas_plain)

lemma missingFrom_shadowed:
  "shadowsMethod data \<Longrightarrow> c \<in> set cols \<Longrightarrow> c \<noteq> [] \<Longrightarrow> missingFrom data cols = Inl TypeError"
proof (induction cols)
  case Nil
  then show ?case by simp
next
  case (Cons col cols)
  have f: "firstRowHas data x = Inl TypeError" for x
    using Cons.prems(1)
    by (cases data) (simp_all add: firstRowHas_def hasOwnProperty_def shadowsMethod_def)
  show ?case
  proof (cases "col = []")
    case True
    with Cons show ?thesis by auto
  next
    case False
    then show ?thesis by (simp add: f)
  qed
qed

text \<open>On a first row with no column named \<^verbatim>\<open>hasOwnProperty\<close> (and on no row at all) a
  required field mapped to a non-empty column name that the first row does not have
  makes \<open>processData\<close> return the error whose message lists every missing column,
  separated by a comma and a space, in the order \<open>debt_id\<close>, \<open>taxpayer_name\<close>,
  \<open>due_date\<close>, \<open>amount\<close>; no row is classified and no summary is built.\<close>

lemma processData_names_missing_columns:
  assumes "\<not> shadowsMethod data"
    and "col \<in> set [debt_id (mapping config), taxpayer_name (mapping config),
                        due_date (mapping config), amount (mapping config)]"
    and "col \<noteq> []" and "\<not> inFirstRow data col"
  shows "processData h clock data config =
           Inl (Error (''Colunas n'' @ [CHR 0xE3] @ ''o encontradas: '' @ join '', ''
             (filter (\<lambda>c. c \<noteq> [] \<and> \<not> inFirstRow data c)
                [debt_id (mapping config), taxpayer_name (mapping config),
                 due_date (mapping config), amount (mapping config)])))"
proof -
  let ?cols = "[debt_id (mapping config), taxpayer_name (mapping config),
                due_date (mapping config), amount (mapping config)]"
  let ?missing = "filter (\<lambda>c. c \<noteq> [] \<and> \<not> inFirstRow data c) ?cols"
  have m: "missingCols data (mapping config) = Inr ?missing"
    unfolding missingCols_def requiredCols_def by (rule missingFrom_plain [OF assms(1)])
  have "col \<in> set ?missing"
    unfolding set_filter using assms(2-4) by blast
  then have "?missing \<noteq> []" by auto
  then show ?thesis
    unfolding processData_def Let_def m missingColsMessage_def by simp
qed

lemma processData_names_missing_columns_example:
  "processData sampleHost sampleClock [rowNoDueDate] sampleConfig =
     Inl (Error (''Colunas n'' @ [CHR 0xE3] @ ''o encontradas: Numero, Vencimento''))"
proof -
  have n: "\<not> shadowsMethod [rowNoDueDate]"
    by (simp add: shadowsMethod_def rowNoDueDate_def)
  have v: "\<not> inFirstRow [rowNoDueDate] ''Vencimento''"
    by (simp add: inFirstRow_def rowNoDueDate_def)
  from processData_names_missing_columns
         [of "[rowNoDueDate]" "''Vencimento''" sampleConfig sampleHost sampleClock, OF n _ _ v]
  show ?thesis
    by (simp add: sampleConfig_def sampleMapping_def inFirstRow_def rowNoDueDate_def)
qed

lemma processData_throws_when_shadowed:
  assumes "shadowsMethod data"
    and "col \<in> set [debt_id (mapping config), taxpayer_name (mapping config),
                        due_date (mapping config), amount (mapping config)]"
    and "col \<noteq> []"
  shows "processData h clock data config = Inl TypeError"
proof -
  have "missingCols data (mapping config) = Inl TypeError"
    unfolding missingCols_def requiredCols_def
    by (rule missingFrom_shadowed [OF assms(1) assms(2) assms(3)])
  then show ?thesis by (simp add: processData_def)
qed

text \<open>
  Claim C6. The claim is that a required field mapped to a column name absent from the
  first row always ends the run with the one configuration error that names the
  missing columns. The source tests the columns with \<^verbatim>\<open>data[0]?.hasOwnProperty(col)\<close>,
  a method call on the row. On a sheet with a column headed \<^verbatim>\<open>hasOwnProperty\<close> the
  call finds the cell, not the method, and the run ends with a \<^verbatim>\<open>TypeError\<close> that
  names no column: here the first row lacks the mapped columns \<^verbatim>\<open>Numero\<close> and
  \<^verbatim>\<open>Vencimento\<close>, and \<open>processData\<close> returns \<open>TypeError\<close>, where the same row without
  that column gives the error naming both.
\<close>

theorem processData_shadowed_method:
  "processData sampleHost sampleClock [rowShadowed] sampleConfig = Inl TypeError
   \<and> rowShadowed (debt_id (mapping sampleConfig)) = None
   \<and> rowShadowed (due_date (mapping sampleConfig)) = None
   \<and> processData sampleHost sampleClock [rowNoDueDate] sampleConfig =
        Inl (Error (''Colunas n'' @ [CHR 0xE3] @ ''o encontradas: Numero, Vencimento''))"
proof -
  have s: "shadowsMethod [rowShadowed]"
    by (simp add: shadowsMethod_def rowShadowed_def)
  have "processData sampleHost sampleClock [rowShadowed] sampleConfig = Inl TypeError"
    by (rule processData_throws_when_shadowed [OF s, of "''Vencimento''"])
       (simp_all add: sampleConfig_def sampleMapping_def)
  moreover have "rowShadowed (debt_id (mapping sampleConfig)) = None"
    "rowShadowed (due_date (mapping sampleConfig)) = None"
    by (simp_all add: sampleConfig_def sampleMapping_def rowShadowed_def rowNoDueDate_def)
  ultimately show ?thesis using processData_names_missing_columns_example by simp
qed

text \<open>
  Claim C10. With no rows at all and the four required fields mapped to non-empty
  column names, \<open>processData\<close> returns the missing-columns error naming the four
  columns: there is no first row to have them. It does not return a summary.
\<close>

theorem processData_no_rows:
  assumes "debt_id (mapping config) \<noteq> []" and "taxpayer_name (mapping config) \<noteq> []"
    and "due_date (mapping config) \<noteq> []" and "amount (mapping config) \<noteq> []"
  shows "processData h clock [] config =
           Inl (Error (''Colunas n'' @ [CHR 0xE3] @ ''o encontradas: ''
             @ debt_id (mapping config) @ '', '' @ taxpayer_name (mapping config) @ '', ''
             @ due_date (mapping config) @ '', '' @ amount (mapping config)))"
  using assms
  by (simp add: processData_def Let_def missingColsMessage_def missingCols_def requiredCols_def
      firstRowHas_def)

theorem processData_no_rows_witness:
  "processData sampleHost sampleClock [] sampleConfig =
     Inl (Error (''Colunas n'' @ [CHR 0xE3] @ ''o encontradas: Numero, Nome, Vencimento, Valor''))"
  using processData_no_rows [of sampleConfig sampleHost sampleClock]
  by (simp add: sampleConfig_def sampleMapping_def)

section \<open>The order of the rules\<close>

lemma char_eq_char_of: "(c = char_of n) = (take_bit 8 n = of_char c)"
  using char_of_eq_iff [of n c] by (simp only: eq_commute [of c])

lemmas parser_eval =
  parseDate_def parseAmount_def trim_def is_space_def is_digit_def four_digits_def parseInt_def
  new_Date_def MakeDay_def getProp_def orEmpty_def toUpperCase_def upper_units_def
  char_of_eq_iff char_eq_char_of

lemmas rule_eval =
  tempDate_def tempAmount_def tempName_def tempDoc_def tempTribute_def refDate_def
  cutoffDate_def isPrescribed_def hasKeyword_def belowThreshold_def isExemptTribute_def
  isBadName_def isBadDoc_def isMapped_def

lemmas sample_eval =
  sampleHost_def sampleClock_def sampleConfig_def sampleMapping_def decimalParseFloat_def
  decimalExponent_def showDate.simps pad2_def showNum_def

lemma labels_distinct:
  "Prescrito \<noteq> Valido" "Imune \<noteq> Valido" "Isento \<noteq> Valido" "Dados_Incompletos \<noteq> Valido"
  "Prescrito \<noteq> Dados_Incompletos" "Imune \<noteq> Dados_Incompletos" "Isento \<noteq> Dados_Incompletos"
  "Valido \<noteq> Dados_Incompletos"
  by (simp_all add: Valido_def Prescrito_def Imune_def Isento_def Dados_Incompletos_def)

lemma classifyRow_cascade:
  "classifyRow h now config r =
     (if prescription_enabled (prescription config) \<and> isPrescribed h now config r
        then (Prescrito, motivo_prescrito h (cutoffDate h now config))
      else if immunity_enabled (immunity config)
              \<and> hasKeyword (immunity_keywords (immunity config)) (tempName h config r)
        then (Imune, motivo_imune)
      else if exemption_enabled (exemption config) \<and> isExemptTribute h config r
        then (Isento, motivo_tributo)
      else if exemption_enabled (exemption config) \<and> belowThreshold h config r
        then (Isento, motivo_valor h (amount_threshold (exemption config)))
      else if incomplete_enabled (incomplete config)
              \<and> (isBadName h config r \<or> isBadDoc h config r)
        then (Dados_Incompletos, motivo_incompleto)
      else (Valido, []))"
  by (simp add: classifyRow_def prescriptionCheck_def immunityCheck_def exemptionCheck_def
      incompleteCheck_def labels_distinct Let_def)

lemma MakeDay_year:
  assumes "0 \<le> m" "m \<le> 11" "1 \<le> d" "d \<le> 31"
  shows "fst (MakeDay y m d) = y"
proof -
  have md: "m div 12 = 0" "m mod 12 = m" using assms by auto
  show ?thesis
  proof (cases "d \<le> days_in_month y m")
    case True
    then show ?thesis using assms by (simp add: MakeDay_def md day_carry_in_month)
  next
    case False
    then have m11: "m \<noteq> 11" using assms by (auto simp: days_in_month_def)
    have lo: "1 \<le> d - days_in_month y m" using False by simp
    have hi: "d - days_in_month y m \<le> days_in_month y (m + 1)"
      using assms by (auto simp: days_in_month_def)
    have "day_carry y m d = day_carry y (m + 1) (d - days_in_month y m)"
      using False assms m11 by (simp add: day_carry_after)
    also have "\<dots> = (y, m + 1, d - days_in_month y m)"
      using lo hi by (rule day_carry_in_month)
    finally show ?thesis by (simp add: MakeDay_def md)
  qed
qed

lemma subtractYears_less:
  assumes "0 \<le> m" "m \<le> 11" "1 \<le> d" "d \<le> 31" "k < j"
  shows "date_less (subtractYears (DateAt y m d t) j) (subtractYears (DateAt y m d t) k)"
proof -
  obtain a b c where j: "MakeDay (y - j) m d = (a, b, c)" by (cases "MakeDay (y - j) m d") 
  obtain a' b' c' where k: "MakeDay (y - k) m d = (a', b', c')" by (cases "MakeDay (y - k) m d") 
  have "a = y - j" using MakeDay_year [OF assms(1-4), of "y - j"] j by simp
  moreover have "a' = y - k" using MakeDay_year [OF assms(1-4), of "y - k"] k by simp
  ultimately show ?thesis using assms(5) j k by simp
qed

lemma date_less_trans: "date_less a b \<Longrightarrow> date_less b c \<Longrightarrow> date_less a c"
  by (cases a; cases b; cases c) auto

text \<open>
  Claim C5, as the source has it. The four rules run in the order prescription,
  immunity, exemption, incomplete, and the first enabled rule whose condition holds
  fixes the status; a row that meets none is \<open>Valido\<close>. When prescription is enabled
  and the due date is before the cutoff, the row is \<open>Prescrito\<close> and the immunity
  block leaves the status and the reason as prescription set them, whatever the name
  holds. The cutoff is the reference date less the configured number of years: a due
  date ten years or more before the reference date (a calendar date) is before the
  cutoff whenever that number is below ten.
\<close>

theorem rule_order:
  "fst (classifyRow h now config r) =
     (if prescription_enabled (prescription config) \<and> isPrescribed h now config r then Prescrito
      else if immunity_enabled (immunity config)
              \<and> hasKeyword (immunity_keywords (immunity config)) (tempName h config r) then Imune
      else if exemption_enabled (exemption config)
              \<and> (belowThreshold h config r \<or> isExemptTribute h config r) then Isento
      else if incomplete_enabled (incomplete config)
              \<and> (isBadName h config r \<or> isBadDoc h config r) then Dados_Incompletos
      else Valido)
   \<and> (prescription_enabled (prescription config) \<and> isPrescribed h now config r \<longrightarrow>
        classifyRow h now config r = (Prescrito, motivo_prescrito h (cutoffDate h now config))
        \<and> immunityCheck h config r (prescriptionCheck h now config r (Valido, []))
            = prescriptionCheck h now config r (Valido, []))
   \<and> (refDate h now config = DateAt y m d t \<and> 0 \<le> m \<and> m \<le> 11 \<and> 1 \<le> d \<and> d \<le> 31
        \<and> years (prescription config) < 10
        \<and> tempDate h config r = Some due
        \<and> (due = subtractYears (refDate h now config) 10
            \<or> date_less due (subtractYears (refDate h now config) 10))
        \<longrightarrow> isPrescribed h now config r)"
proof (intro conjI impI)
  show "fst (classifyRow h now config r) =
     (if prescription_enabled (prescription config) \<and> isPrescribed h now config r then Prescrito
      else if immunity_enabled (immunity config)
              \<and> hasKeyword (immunity_keywords (immunity config)) (tempName h config r) then Imune
      else if exemption_enabled (exemption config)
              \<and> (belowThreshold h config r \<or> isExemptTribute h config r) then Isento
      else if incomplete_enabled (incomplete config)
              \<and> (isBadName h config r \<or> isBadDoc h config r) then Dados_Incompletos
      else Valido)"
    by (auto simp: classifyRow_cascade)
next
  assume "prescription_enabled (prescription config) \<and> isPrescribed h now config r"
  then show "classifyRow h now config r = (Prescrito, motivo_prescrito h (cutoffDate h now config))"
    by (simp add: classifyRow_cascade)
next
  assume "prescription_enabled (prescription config) \<and> isPrescribed h now config r"
  then show "immunityCheck h config r (prescriptionCheck h now config r (Valido, []))
            = prescriptionCheck h now config r (Valido, [])"
    by (simp add: immunityCheck_def prescriptionCheck_def labels_distinct)
next
  assume a: "refDate h now config = DateAt y m d t \<and> 0 \<le> m \<and> m \<le> 11 \<and> 1 \<le> d \<and> d \<le> 31
        \<and> years (prescription config) < 10
        \<and> tempDate h config r = Some due
        \<and> (due = subtractYears (refDate h now config) 10
            \<or> date_less due (subtractYears (refDate h now config) 10))"
  let ?ref = "DateAt y m d t"
  have lt: "date_less (subtractYears ?ref 10) (subtractYears ?ref (years (prescription config)))"
    using a by (intro subtractYears_less) simp_all
  from a have r: "refDate h now config = ?ref"
    and dj: "due = subtractYears (refDate h now config) 10
             \<or> date_less due (subtractYears (refDate h now config) 10)"
    by blast+
  from dj have "due = subtractYears ?ref 10 \<or> date_less due (subtractYears ?ref 10)"
    unfolding r .
  then have "date_less due (subtractYears ?ref (years (prescription config)))"
    using lt by (auto intro: date_less_trans)
  then show "isPrescribed h now config r"
    using a by (simp add: isPrescribed_def cutoffDate_def)
qed

theorem rule_order_witness:
  "classifyRow sampleHost midMorning sampleConfig rowOldMunicipio
     = (Prescrito, ''Vencimento anterior a 15/06/2019'')
   \<and> hasKeyword (immunity_keywords (immunity sampleConfig))
        (tempName sampleHost sampleConfig rowOldMunicipio)
   \<and> tempDate sampleHost sampleConfig rowOldMunicipio = Some (DateAt 2014 5 15 0)
   \<and> subtractYears (refDate sampleHost midMorning sampleConfig) 10 = DateAt 2014 5 15 37800000
   \<and> years (prescription sampleConfig) = 5"
proof -
  have r: "refDate sampleHost midMorning sampleConfig = DateAt 2024 5 15 37800000"
    by code_simp
  have s: "subtractYears (refDate sampleHost midMorning sampleConfig) 10
             = DateAt 2014 5 15 37800000"
    by code_simp
  have t: "tempDate sampleHost sampleConfig rowOldMunicipio = Some (DateAt 2014 5 15 0)"
    by code_simp
  have k: "hasKeyword (immunity_keywords (immunity sampleConfig))
        (tempName sampleHost sampleConfig rowOldMunicipio)"
    by code_simp
  have y: "years (prescription sampleConfig) = 5" and e: "prescription_enabled (prescription sampleConfig)"
    by (simp_all add: sampleConfig_def)
  have m: "motivo_prescrito sampleHost (cutoffDate sampleHost midMorning sampleConfig)
     = ''Vencimento anterior a 15/06/2019''"
    by code_simp
  note ro = rule_order [of sampleHost midMorning sampleConfig rowOldMunicipio
      2024 5 15 37800000 "DateAt 2014 5 15 0"]
  have p: "isPrescribed sampleHost midMorning sampleConfig rowOldMunicipio"
    using ro r s t y by simp
  with ro e
  have "classifyRow sampleHost midMorning sampleConfig rowOldMunicipio
     = (Prescrito, motivo_prescrito sampleHost (cutoffDate sampleHost midMorning sampleConfig))"
    by blast
  with m k t s y show ?thesis by simp
qed

text \<open>
  The claim as stated fails when ten years or more are configured: with both rules
  enabled and 15 years, a row due exactly ten years before the clock whose name holds
  an immunity keyword is not prescribed, and the immunity rule makes it \<open>Imune\<close>.
\<close>

theorem rule_order_years_counterexample:
  "prescription_enabled (prescription fifteenYearsConfig)
   \<and> immunity_enabled (immunity fifteenYearsConfig)
   \<and> tempDate sampleHost fifteenYearsConfig rowOldMunicipio
        = Some (subtractYears (sampleClock 0) 10)
   \<and> hasKeyword (immunity_keywords (immunity fifteenYearsConfig))
        (tempName sampleHost fifteenYearsConfig rowOldMunicipio)
   \<and> classifyRow sampleHost (sampleClock 0) fifteenYearsConfig rowOldMunicipio
        = (Imune, motivo_imune)"
  by code_simp

section \<open>The incomplete rule\<close>

text \<open>
  Claim C1. With the incomplete rule enabled and \<open>check_cpf_cnpj\<close> set, but no column
  mapped to \<open>cpf_cnpj\<close>, the document check never fires: a row is classified
  \<open>Dados_Incompletos\<close> only through its name, and a row that no rule's other
  condition meets (not prescribed, no immunity keyword, not exempt, name not bad) is
  \<open>Valido\<close> with an empty reason.
\<close>

theorem unmapped_document_never_incomplete:
  assumes "incomplete_enabled (incomplete config)" and "check_cpf_cnpj (incomplete config)"
    and "\<not> isMapped (cpf_cnpj (mapping config))"
  shows "\<not> isBadDoc h config r
    \<and> (fst (classifyRow h now config r) = Dados_Incompletos \<longrightarrow> isBadName h config r)
    \<and> (\<not> (prescription_enabled (prescription config) \<and> isPrescribed h now config r)
        \<and> \<not> (immunity_enabled (immunity config)
              \<and> hasKeyword (immunity_keywords (immunity config)) (tempName h config r))
        \<and> \<not> (exemption_enabled (exemption config)
              \<and> (belowThreshold h config r \<or> isExemptTribute h config r))
        \<and> \<not> isBadName h config r
        \<longrightarrow> classifyRow h now config r = (Valido, []))"
proof -
  have d: "\<not> isBadDoc h config r" using assms(3) by (simp add: isBadDoc_def)
  then show ?thesis
    by (auto simp: classifyRow_cascade labels_distinct split: if_splits)
qed

theorem unmapped_document_never_incomplete_witness:
  "incomplete_enabled (incomplete sampleConfig) \<and> check_cpf_cnpj (incomplete sampleConfig)
   \<and> \<not> isMapped (cpf_cnpj (mapping sampleConfig))
   \<and> classifyRow sampleHost (sampleClock 0) sampleConfig rowPlain = (Valido, [])"
proof -
  have a: "incomplete_enabled (incomplete sampleConfig)" "check_cpf_cnpj (incomplete sampleConfig)"
    "\<not> isMapped (cpf_cnpj (mapping sampleConfig))"
    by (simp_all add: sample_eval isMapped_def)
  have p: "\<not> isPrescribed sampleHost (sampleClock 0) sampleConfig rowPlain"
    by (simp add: rule_eval parser_eval sample_eval day_carry_eval rowPlain_def)
  have k: "\<not> hasKeyword (immunity_keywords (immunity sampleConfig))
        (tempName sampleHost sampleConfig rowPlain)"
    by (simp add: rule_eval parser_eval sample_eval rowPlain_def)
  have e: "\<not> belowThreshold sampleHost sampleConfig rowPlain"
    "\<not> isExemptTribute sampleHost sampleConfig rowPlain"
    by (simp_all add: rule_eval sample_eval)
  have n: "\<not> isBadName sampleHost sampleConfig rowPlain"
    by (simp add: rule_eval parser_eval sample_eval rowPlain_def)
  from unmapped_document_never_incomplete [OF a, of sampleHost rowPlain "sampleClock 0"] p k e n
  have "classifyRow sampleHost (sampleClock 0) sampleConfig rowPlain = (Valido, [])" by blast
  with a show ?thesis by simp
qed


lemma length_toUpperCase: "length s \<le> length (toUpperCase s)"
proof (induction s)
  case Nil
  then show ?case by (simp add: toUpperCase_def)
next
  case (Cons c s)
  have "1 \<le> length (upper_units c)" by (simp add: upper_units_def Let_def)
  with Cons show ?case by (simp add: toUpperCase_def)
qed

lemma char_223: "char_of (223 :: nat) = CHR 0xDF"
  by code_simp

lemma upper_units_single:
  assumes "c \<noteq> CHR 0xDF"
  shows "length (upper_units c) = 1"
proof -
  have "of_char c \<noteq> (223 :: nat)"
  proof
    assume "of_char c = (223 :: nat)"
    then have "char_of (of_char c :: nat) = char_of (223 :: nat)" by simp
    then show False using assms by (simp only: char_of_char char_223)
  qed
  then show ?thesis by (simp add: upper_units_def Let_def)
qed

lemma length_toUpperCase_plain:
  "CHR 0xDF \<notin> set s \<Longrightarrow> length (toUpperCase s) = length s"
proof (induction s)
  case Nil
  then show ?case by (simp add: toUpperCase_def)
next
  case (Cons c s)
  then have "length (upper_units c) = 1" by (intro upper_units_single) auto
  with Cons show ?case by (simp add: toUpperCase_def)
qed

text \<open>
  Claim C3, as the source has it. The name the rules use is the upper-case form of the
  string form of the name cell, the empty string when the cell is absent; it is not
  trimmed. The length check of the incomplete rule counts the code units of this
  name, white space included: the name is bad exactly when it holds a keyword or has
  fewer than 3 code units, and a row that reaches the incomplete rule with a name of
  fewer than 3 code units is \<open>Dados_Incompletos\<close>. The upper-case form is never
  shorter than the raw name, so a raw name of 3 code units or more, padding included,
  is bad only through a keyword; it is as long as the raw name when that has no
  U+00DF, whose upper-case form is \<^verbatim>\<open>SS\<close>.
\<close>

theorem name_upper_case_only:
  "tempName h config r = toUpperCase (toStr h (orEmpty (getProp r (taxpayer_name (mapping config)))))
   \<and> (r (taxpayer_name (mapping config)) = None \<longrightarrow> tempName h config r = [])
   \<and> (r (taxpayer_name (mapping config)) = Some (CStr s) \<longrightarrow>
        tempName h config r = toUpperCase s
        \<and> length s \<le> length (tempName h config r)
        \<and> (CHR 0xDF \<notin> set s \<longrightarrow> length (tempName h config r) = length s)
        \<and> (3 \<le> length s \<longrightarrow>
             isBadName h config r
               = hasKeyword (incomplete_keywords (incomplete config)) (tempName h config r)))
   \<and> isBadName h config r
       = (hasKeyword (incomplete_keywords (incomplete config)) (tempName h config r)
          \<or> length (tempName h config r) < 3)
   \<and> (incomplete_enabled (incomplete config) \<and> length (tempName h config r) < 3
        \<and> \<not> (prescription_enabled (prescription config) \<and> isPrescribed h now config r)
        \<and> \<not> (immunity_enabled (immunity config)
              \<and> hasKeyword (immunity_keywords (immunity config)) (tempName h config r))
        \<and> \<not> (exemption_enabled (exemption config)
              \<and> (belowThreshold h config r \<or> isExemptTribute h config r))
        \<longrightarrow> classifyRow h now config r = (Dados_Incompletos, motivo_incompleto))"
proof (intro conjI impI)
  show "tempName h config r
      = toUpperCase (toStr h (orEmpty (getProp r (taxpayer_name (mapping config)))))"
    by (simp add: tempName_def)
next
  assume "r (taxpayer_name (mapping config)) = None"
  then show "tempName h config r = []"
    by (simp add: tempName_def getProp_def orEmpty_def toUpperCase_def)
next
  assume a: "r (taxpayer_name (mapping config)) = Some (CStr s)"
  then show n: "tempName h config r = toUpperCase s"
    by (simp add: tempName_def getProp_def orEmpty_def toUpperCase_def)
  show l: "length s \<le> length (tempName h config r)"
    unfolding n by (rule length_toUpperCase)
  {
    assume "CHR 0xDF \<notin> set s"
    then show "length (tempName h config r) = length s"
      unfolding n by (rule length_toUpperCase_plain)
  }
  {
    assume "3 \<le> length s"
    with l have "\<not> length (tempName h config r) < 3" by simp
    then show "isBadName h config r
        = hasKeyword (incomplete_keywords (incomplete config)) (tempName h config r)"
      by (simp add: isBadName_def)
  }
next
  show "isBadName h config r
       = (hasKeyword (incomplete_keywords (incomplete config)) (tempName h config r)
          \<or> length (tempName h config r) < 3)"
    by (simp add: isBadName_def)
next
  assume a: "incomplete_enabled (incomplete config) \<and> length (tempName h config r) < 3
        \<and> \<not> (prescription_enabled (prescription config) \<and> isPrescribed h now config r)
        \<and> \<not> (immunity_enabled (immunity config)
              \<and> hasKeyword (immunity_keywords (immunity config)) (tempName h config r))
        \<and> \<not> (exemption_enabled (exemption config)
              \<and> (belowThreshold h config r \<or> isExemptTribute h config r))"
  then have "isBadName h config r" by (simp add: isBadName_def)
  with a show "classifyRow h now config r = (Dados_Incompletos, motivo_incompleto)"
    by (auto simp: classifyRow_cascade)
qed

theorem name_upper_case_only_witness:
  "tempName sampleHost sampleConfig rowShortName = ''JO''
   \<and> classifyRow sampleHost (sampleClock 0) sampleConfig rowShortName
       = (Dados_Incompletos, motivo_incompleto)
   \<and> tempName sampleHost sampleConfig rowNoDueDate = ''JOAO DA SILVA''
   \<and> tempName sampleHost sampleConfig Map.empty = []
   \<and> tempName sampleHost sampleConfig rowEszett = ''SSA''
   \<and> classifyRow sampleHost (sampleClock 0) sampleConfig rowEszett = (Valido, [])"
proof -
  have s: "rowShortName (taxpayer_name (mapping sampleConfig)) = Some (CStr ''Jo'')"
    by (simp add: sample_eval rowShortName_def)
  have u: "toUpperCase ''Jo'' = ''JO''" by code_simp
  have "tempName sampleHost sampleConfig rowShortName = toUpperCase ''Jo''"
    using name_upper_case_only [of sampleHost sampleConfig rowShortName "''Jo''"] s by blast
  with u have n: "tempName sampleHost sampleConfig rowShortName = ''JO''" by simp
  have p: "\<not> isPrescribed sampleHost (sampleClock 0) sampleConfig rowShortName"
    by code_simp
  have k: "\<not> hasKeyword (immunity_keywords (immunity sampleConfig))
        (tempName sampleHost sampleConfig rowShortName)"
    by code_simp
  have e: "\<not> belowThreshold sampleHost sampleConfig rowShortName"
    "\<not> isExemptTribute sampleHost sampleConfig rowShortName"
    by code_simp+
  have i: "incomplete_enabled (incomplete sampleConfig)" by (simp add: sample_eval)
  have l: "length (tempName sampleHost sampleConfig rowShortName) < 3" unfolding n by simp
  have c: "classifyRow sampleHost (sampleClock 0) sampleConfig rowShortName
       = (Dados_Incompletos, motivo_incompleto)"
    using name_upper_case_only [of sampleHost sampleConfig rowShortName "''Jo''" "sampleClock 0"]
      p k e i l by blast
  have j: "rowNoDueDate (taxpayer_name (mapping sampleConfig)) = Some (CStr ''Joao da Silva'')"
    by (simp add: sample_eval rowNoDueDate_def)
  have "tempName sampleHost sampleConfig rowNoDueDate = toUpperCase ''Joao da Silva''"
    using name_upper_case_only [of sampleHost sampleConfig rowNoDueDate "''Joao da Silva''"] j
    by blast
  moreover have "toUpperCase ''Joao da Silva'' = ''JOAO DA SILVA''" by code_simp
  ultimately have f: "tempName sampleHost sampleConfig rowNoDueDate = ''JOAO DA SILVA''"
    by simp
  have m: "tempName sampleHost sampleConfig Map.empty = []"
    using name_upper_case_only [of sampleHost sampleConfig Map.empty] by blast
  have z: "tempName sampleHost sampleConfig rowEszett = ''SSA''"
    "classifyRow sampleHost (sampleClock 0) sampleConfig rowEszett = (Valido, [])"
    by code_simp+
  from n c f m z show ?thesis by simp
qed


text \<open>
  The claim as stated fails: the name \<^verbatim>\<open>Jo\<close> followed by three spaces keeps its
  spaces, has length 5, is no bad name and the row is \<open>Valido\<close>.
\<close>

theorem name_not_trimmed_counterexample:
  "tempName sampleHost sampleConfig rowPaddedName = ''JO   ''
   \<and> toUpperCase (trim (toStr sampleHost (orEmpty (getProp rowPaddedName ''Nome'')))) = ''JO''
   \<and> \<not> isBadName sampleHost sampleConfig rowPaddedName
   \<and> classifyRow sampleHost (sampleClock 0) sampleConfig rowPaddedName = (Valido, [])"
proof -
  have n: "tempName sampleHost sampleConfig rowPaddedName = ''JO   ''"
    by (simp add: rule_eval parser_eval sample_eval rowPaddedName_def)
  have t: "toUpperCase (trim (toStr sampleHost (orEmpty (getProp rowPaddedName ''Nome'')))) = ''JO''"
    by (simp add: parser_eval rowPaddedName_def)
  have b: "\<not> isBadName sampleHost sampleConfig rowPaddedName"
    unfolding isBadName_def n by (simp add: hasKeyword_def sample_eval parser_eval)
  have p: "\<not> isPrescribed sampleHost (sampleClock 0) sampleConfig rowPaddedName"
    by (simp add: rule_eval parser_eval sample_eval day_carry_eval rowPaddedName_def rowPlain_def)
  have k: "\<not> hasKeyword (immunity_keywords (immunity sampleConfig))
        (tempName sampleHost sampleConfig rowPaddedName)"
    unfolding n by (simp add: hasKeyword_def sample_eval parser_eval)
  have e: "\<not> belowThreshold sampleHost sampleConfig rowPaddedName"
    "\<not> isExemptTribute sampleHost sampleConfig rowPaddedName"
    by (simp_all add: rule_eval sample_eval)
  have d: "\<not> isBadDoc sampleHost sampleConfig rowPaddedName"
    by (simp add: rule_eval sample_eval)
  have "classifyRow sampleHost (sampleClock 0) sampleConfig rowPaddedName = (Valido, [])"
    using p k e b d by (simp add: classifyRow_cascade)
  with n t b show ?thesis by simp
qed


section \<open>The exemption rule\<close>

text \<open>
  Claim C4, as the source has it. When the exemption rule is enabled, neither
  prescription nor immunity has matched, the amount is below a positive threshold
  and the upper-case tribute type is among the upper-case exempt tributes, the row is
  \<open>Isento\<close> with the reason of the tribute check: the amount check writes its reason
  first (it is the reason when no tribute is configured) and the tribute check
  overwrites it.
\<close>

theorem exempt_when_reached:
  assumes "exemption_enabled (exemption config)"
    and "0 < amount_threshold (exemption config)"
    and "tempAmount h config r < amount_threshold (exemption config)"
    and "tempTribute h config r \<in> set (map toUpperCase (tributes (exemption config)))"
    and "\<not> (prescription_enabled (prescription config) \<and> isPrescribed h now config r)"
    and "\<not> (immunity_enabled (immunity config)
            \<and> hasKeyword (immunity_keywords (immunity config)) (tempName h config r))"
  shows "classifyRow h now config r = (Isento, ''Tributo Isento'')
    \<and> exemptionCheck h config r (Valido, []) = (Isento, ''Tributo Isento'')
    \<and> exemptionCheck h (config\<lparr>exemption := (exemption config)\<lparr>tributes := []\<rparr>\<rparr>) r (Valido, [])
        = (Isento, ''Valor abaixo de R$ '' @ numToString h (amount_threshold (exemption config)))"
proof -
  have t: "isExemptTribute h config r" using assms(4) by (auto simp: isExemptTribute_def)
  have b: "belowThreshold h config r" using assms(2,3) by (simp add: belowThreshold_def)
  have b': "belowThreshold h (config\<lparr>exemption := (exemption config)\<lparr>tributes := []\<rparr>\<rparr>) r"
    using assms(2,3) by (simp add: belowThreshold_def tempAmount_def)
  have 1: "classifyRow h now config r = (Isento, ''Tributo Isento'')"
    using assms(1,5,6) t by (auto simp: classifyRow_cascade motivo_tributo_def)
  have 2: "exemptionCheck h config r (Valido, []) = (Isento, ''Tributo Isento'')"
    using assms(1) t by (simp add: exemptionCheck_def motivo_tributo_def)
  have 3: "exemptionCheck h (config\<lparr>exemption := (exemption config)\<lparr>tributes := []\<rparr>\<rparr>) r (Valido, [])
        = (Isento, ''Valor abaixo de R$ '' @ numToString h (amount_threshold (exemption config)))"
    using assms(1) b' by (simp add: exemptionCheck_def isExemptTribute_def motivo_valor_def)
  from 1 2 3 show ?thesis by simp
qed

theorem exempt_when_reached_witness:
  "classifyRow sampleHost (sampleClock 0) exemptConfig rowSmallIptu = (Isento, ''Tributo Isento'')
   \<and> exemptionCheck sampleHost (exemptConfig\<lparr>exemption := (exemption exemptConfig)\<lparr>tributes := []\<rparr>\<rparr>)
        rowSmallIptu (Valido, [])
       = (Isento, ''Valor abaixo de R$ 100'')
   \<and> tempAmount sampleHost exemptConfig rowSmallIptu = 50
   \<and> tempTribute sampleHost exemptConfig rowSmallIptu = ''IPTU''"
proof -
  have x: "exemption_enabled (exemption exemptConfig)" by (simp add: exemptConfig_def)
  have th: "amount_threshold (exemption exemptConfig) = 100" by (simp add: exemptConfig_def)
  have a: "tempAmount sampleHost exemptConfig rowSmallIptu = 50"
    by code_simp
  have tt: "tempTribute sampleHost exemptConfig rowSmallIptu = ''IPTU''"
    by code_simp
  have t: "tempTribute sampleHost exemptConfig rowSmallIptu
             \<in> set (map toUpperCase (tributes (exemption exemptConfig)))"
    by code_simp
  have p: "\<not> (prescription_enabled (prescription exemptConfig)
             \<and> isPrescribed sampleHost (sampleClock 0) exemptConfig rowSmallIptu)"
    by code_simp
  have k: "\<not> (immunity_enabled (immunity exemptConfig)
            \<and> hasKeyword (immunity_keywords (immunity exemptConfig))
                 (tempName sampleHost exemptConfig rowSmallIptu))"
    by code_simp
  have s: "numToString sampleHost 100 = ''100''"
    by code_simp
  from exempt_when_reached [of exemptConfig sampleHost rowSmallIptu "sampleClock 0", OF x _ _ t p k]
    a th s tt
  show ?thesis by simp
qed


text \<open>
  The claim as stated fails on a row that an earlier rule takes: with both sub-checks
  holding, a row due in 2010 is \<open>Prescrito\<close>.
\<close>

theorem exempt_when_reached_counterexample:
  "exemption_enabled (exemption exemptConfig)
   \<and> belowThreshold sampleHost exemptConfig rowOldSmallIptu
   \<and> isExemptTribute sampleHost exemptConfig rowOldSmallIptu
   \<and> classifyRow sampleHost (sampleClock 0) exemptConfig rowOldSmallIptu
       = (Prescrito, ''Vencimento anterior a 15/06/2019'')"
proof -
  have x: "exemption_enabled (exemption exemptConfig)" by (simp add: exemptConfig_def)
  have b: "belowThreshold sampleHost exemptConfig rowOldSmallIptu"
    by code_simp
  have t: "isExemptTribute sampleHost exemptConfig rowOldSmallIptu"
    by code_simp
  have p: "isPrescribed sampleHost (sampleClock 0) exemptConfig rowOldSmallIptu"
    by code_simp
  have m: "motivo_prescrito sampleHost (cutoffDate sampleHost (sampleClock 0) exemptConfig)
     = ''Vencimento anterior a 15/06/2019''"
    by code_simp
  have e: "prescription_enabled (prescription exemptConfig)"
    by (simp add: exemptConfig_def sample_eval)
  have "classifyRow sampleHost (sampleClock 0) exemptConfig rowOldSmallIptu
       = (Prescrito, ''Vencimento anterior a 15/06/2019'')"
    using p e m by (simp add: classifyRow_cascade)
  with x b t show ?thesis by simp
qed

section \<open>The summary\<close>

lemma classifyRow_status:
  "fst (classifyRow h now config r) \<in> {Valido, Prescrito, Imune, Isento, Dados_Incompletos}"
  by (simp add: classifyRow_cascade)

lemma countStatus_label:
  assumes "s \<in> {Valido, Prescrito, Imune, Isento, Dados_Incompletos}"
  shows "countsSum (countStatus c (CStr s)) = countsSum c + 1"
  using assms by (auto simp: countStatus_def countsSum_def)

lemma getProp_annotate_status [simp]:
  "getProp (annotate r st) ''Status_Higienizacao'' = CStr (fst st)"
  by (simp add: getProp_def annotate_def)

lemma getProp_annotate_other:
  "col \<noteq> ''Status_Higienizacao'' \<Longrightarrow> col \<noteq> ''Motivo_Higienizacao''
   \<Longrightarrow> getProp (annotate r st) col = getProp r col"
  by (simp add: getProp_def annotate_def)

lemma statusCounts_tallyRow:
  "statusCounts (tallyRow h m acc r)
     = countStatus (statusCounts acc) (getProp r ''Status_Higienizacao'')"
  by (simp add: tallyRow_def Let_def)

lemma foldl_tallyRow_counts:
  assumes "\<forall>r \<in> set rows. \<exists>s \<in> {Valido, Prescrito, Imune, Isento, Dados_Incompletos}.
             getProp r ''Status_Higienizacao'' = CStr s"
  shows "countsSum (statusCounts (foldl (tallyRow h m) acc rows))
           = countsSum (statusCounts acc) + length rows"
  using assms
proof (induction rows arbitrary: acc)
  case Nil
  then show ?case by simp
next
  case (Cons r rows)
  from Cons.prems obtain s where s: "s \<in> {Valido, Prescrito, Imune, Isento, Dados_Incompletos}"
    "getProp r ''Status_Higienizacao'' = CStr s" by auto
  have "countsSum (statusCounts (tallyRow h m acc r)) = countsSum (statusCounts acc) + 1"
    using countStatus_label [OF s(1)] s(2) by (simp add: statusCounts_tallyRow)
  moreover have "countsSum (statusCounts (foldl (tallyRow h m) (tallyRow h m acc r) rows))
           = countsSum (statusCounts (tallyRow h m acc r)) + length rows"
    using Cons.prems by (intro Cons.IH) simp
  ultimately show ?case by simp
qed

lemma processRows_status:
  "\<forall>r \<in> set (processRows h clock config data).
     \<exists>s \<in> {Valido, Prescrito, Imune, Isento, Dados_Incompletos}.
       getProp r ''Status_Higienizacao'' = CStr s"
proof
  fix r
  assume "r \<in> set (processRows h clock config data)"
  then obtain i x where r: "r = annotate x (classifyRow h (clock i) config x)"
    by (auto simp: processRows_def)
  show "\<exists>s \<in> {Valido, Prescrito, Imune, Isento, Dados_Incompletos}.
          getProp r ''Status_Higienizacao'' = CStr s"
    unfolding r getProp_annotate_status
    by (rule bexI [OF refl classifyRow_status])
qed

lemma length_processRows [simp]: "length (processRows h clock config data) = length data"
  by (simp add: processRows_def)

lemma sample_classified:
  "classifyRow sampleHost (DateAt 2024 5 15 0) sampleConfig rowPlain = (Valido, [])"
  "classifyRow sampleHost (DateAt 2024 5 15 0) sampleConfig rowOldMunicipio
     = (Prescrito, ''Vencimento anterior a 15/06/2019'')"
  "classifyRow sampleHost (DateAt 2024 5 15 0) sampleConfig rowShortName
     = (Dados_Incompletos, motivo_incompleto)"
  by code_simp+

lemma sample_amounts:
  "parseAmount sampleHost (getProp rowPlain ''Valor'') = 250"
  "parseAmount sampleHost (getProp rowOldMunicipio ''Valor'') = 1234.56"
  "parseAmount sampleHost (getProp rowShortName ''Valor'') = 250"
  by code_simp+

lemma sample_processed:
  "processRows sampleHost sampleClock sampleConfig sampleRows =
     [annotate rowPlain (Valido, []),
      annotate rowOldMunicipio (Prescrito, ''Vencimento anterior a 15/06/2019''),
      annotate rowShortName (Dados_Incompletos, motivo_incompleto)]"
  by (simp add: processRows_def sampleRows_def sampleClock_def sample_classified)

lemma sample_summary:
  "summarize sampleHost (mapping sampleConfig) 3
     (processRows sampleHost sampleClock sampleConfig sampleRows)
   = \<lparr>total_records = 3, processed_records = 3, prescribed_count = 1, immune_count = 0,
      exempt_count = 0, incomplete_count = 1, valid_count = 1,
      total_amount_removed = 1484.56, total_amount_valid = 250\<rparr>"
  unfolding sample_processed
  by (simp add: summarize_def tallyRow_def Let_def countStatus_def emptyTally_def
      getProp_annotate_other sample_amounts labels_distinct sampleConfig_def sampleMapping_def
      Prescrito_def Imune_def Isento_def Dados_Incompletos_def Valido_def)

text \<open>
  Claim C7. Whenever the column validation passes, \<open>processData\<close> returns a result
  whose five status counts add up to \<open>total_records\<close>, whose \<open>processed_records\<close>
  equals \<open>total_records\<close>, and whose \<open>total_records\<close> is the number of input rows;
  the annotated rows are as many as the input rows.
\<close>

theorem counts_add_up:
  assumes "missingCols data (mapping config) = Inr []"
  shows "\<exists>res. processData h clock data config = Inr res
    \<and> valid_count (summary res) + prescribed_count (summary res) + immune_count (summary res)
        + exempt_count (summary res) + incomplete_count (summary res)
        = total_records (summary res)
    \<and> processed_records (summary res) = total_records (summary res)
    \<and> total_records (summary res) = length data
    \<and> length (processedData res) = length data"
proof -
  let ?rows = "processRows h clock config data"
  have "countsSum (statusCounts (foldl (tallyRow h (mapping config)) emptyTally ?rows))
          = countsSum (statusCounts emptyTally) + length ?rows"
    by (rule foldl_tallyRow_counts) (rule processRows_status)
  then have "countsSum (statusCounts (foldl (tallyRow h (mapping config)) emptyTally ?rows))
          = length data"
    by (simp add: emptyTally_def countsSum_def)
  then show ?thesis using assms
    by (simp add: processData_def summarize_def Let_def countsSum_def)
qed

theorem counts_add_up_witness:
  "(\<exists>res. processData sampleHost sampleClock sampleRows sampleConfig = Inr res
    \<and> valid_count (summary res) + prescribed_count (summary res) + immune_count (summary res)
        + exempt_count (summary res) + incomplete_count (summary res)
        = total_records (summary res)
    \<and> processed_records (summary res) = total_records (summary res)
    \<and> total_records (summary res) = 3
    \<and> length (processedData res) = 3)
   \<and> map_sum id summary (processData sampleHost sampleClock sampleRows sampleConfig)
       = Inr \<lparr>total_records = 3, processed_records = 3, prescribed_count = 1, immune_count = 0,
              exempt_count = 0, incomplete_count = 1, valid_count = 1,
              total_amount_removed = 1484.56, total_amount_valid = 250\<rparr>"
proof -
  have m: "missingCols sampleRows (mapping sampleConfig) = Inr []" by code_simp
  have l: "length sampleRows = 3" by (simp add: sampleRows_def)
  have s: "map_sum id summary (processData sampleHost sampleClock sampleRows sampleConfig)
       = Inr \<lparr>total_records = 3, processed_records = 3, prescribed_count = 1, immune_count = 0,
              exempt_count = 0, incomplete_count = 1, valid_count = 1,
              total_amount_removed = 1484.56, total_amount_valid = 250\<rparr>"
    using m l sample_summary by (simp add: processData_def Let_def)
  from counts_add_up [OF m, of sampleHost sampleClock] l s show ?thesis by simp
qed

lemma totals_tallyRow:
  "totalValid (tallyRow h m acc r)
     = totalValid acc + (if getProp r ''Status_Higienizacao'' = CStr Valido
                         then parseAmount h (getProp r (amount m)) else 0)"
  "totalRemoved (tallyRow h m acc r)
     = totalRemoved acc + (if getProp r ''Status_Higienizacao'' \<noteq> CStr Valido
                           then parseAmount h (getProp r (amount m)) else 0)"
  by (simp_all add: tallyRow_def Let_def)

lemma foldl_tallyRow_totals:
  "totalValid (foldl (tallyRow h m) acc rows)
     = totalValid acc + (\<Sum>r\<leftarrow>rows. if getProp r ''Status_Higienizacao'' = CStr Valido
                                    then parseAmount h (getProp r (amount m)) else 0)
   \<and> totalRemoved (foldl (tallyRow h m) acc rows)
     = totalRemoved acc + (\<Sum>r\<leftarrow>rows. if getProp r ''Status_Higienizacao'' \<noteq> CStr Valido
                                    then parseAmount h (getProp r (amount m)) else 0)"
proof (induction rows arbitrary: acc)
  case Nil
  then show ?case by simp
next
  case (Cons r rows)
  show ?case using Cons.IH [of "tallyRow h m acc r"] by (simp add: totals_tallyRow)
qed

lemma sum_list_enumerate_snd:
  "(\<Sum>(i, r)\<leftarrow>enumerate n xs. f r) = (\<Sum>r\<leftarrow>xs. f r)"
  by (induction xs arbitrary: n) simp_all

text \<open>
  Claim C8, as the source has it. The summary loop reads the amount again from the
  annotated row. When the column validation passes and the amount column is neither
  of the two columns the annotation writes, \<open>total_amount_valid\<close> is the sum of the
  parsed amounts of the rows classified \<open>Valido\<close>, \<open>total_amount_removed\<close> the sum over
  the other rows, and the two add up to the sum of the parsed amounts of all input
  rows (an amount that does not parse counts 0).
\<close>

theorem amounts_add_up:
  assumes "missingCols data (mapping config) = Inr []"
    and "amount (mapping config) \<notin> annotationCols"
  shows "\<exists>res. processData h clock data config = Inr res
    \<and> total_amount_valid (summary res) + total_amount_removed (summary res)
        = (\<Sum>r\<leftarrow>data. parseAmount h (getProp r (amount (mapping config))))
    \<and> total_amount_valid (summary res)
        = (\<Sum>(i, r)\<leftarrow>enumerate 0 data.
             if fst (classifyRow h (clock i) config r) = Valido
             then parseAmount h (getProp r (amount (mapping config))) else 0)
    \<and> total_amount_removed (summary res)
        = (\<Sum>(i, r)\<leftarrow>enumerate 0 data.
             if fst (classifyRow h (clock i) config r) \<noteq> Valido
             then parseAmount h (getProp r (amount (mapping config))) else 0)"
proof -
  let ?m = "mapping config"
  let ?a = "\<lambda>r. parseAmount h (getProp r (amount ?m))"
  let ?rows = "processRows h clock config data"
  let ?t = "foldl (tallyRow h ?m) emptyTally ?rows"
  have col: "amount ?m \<noteq> ''Status_Higienizacao''" "amount ?m \<noteq> ''Motivo_Higienizacao''"
    using assms(2) by (auto simp: annotationCols_def)
  have amt: "getProp (annotate r st) (amount ?m) = getProp r (amount ?m)" for r st
    using col by (rule getProp_annotate_other)
  have v: "totalValid ?t
        = (\<Sum>(i, r)\<leftarrow>enumerate 0 data.
             if fst (classifyRow h (clock i) config r) = Valido then ?a r else 0)"
    using foldl_tallyRow_totals [of h ?m emptyTally ?rows]
    by (simp add: emptyTally_def processRows_def comp_def case_prod_unfold amt cong: if_cong)
  have r: "totalRemoved ?t
        = (\<Sum>(i, r)\<leftarrow>enumerate 0 data.
             if fst (classifyRow h (clock i) config r) \<noteq> Valido then ?a r else 0)"
    using foldl_tallyRow_totals [of h ?m emptyTally ?rows]
    by (simp add: emptyTally_def processRows_def comp_def case_prod_unfold amt cong: if_cong)
  have "totalValid ?t + totalRemoved ?t = (\<Sum>(i, r)\<leftarrow>enumerate 0 data. ?a r)"
    unfolding v r sum_list_addf [symmetric]
    by (rule arg_cong [where f = sum_list]) (auto simp: case_prod_unfold)
  then have s: "totalValid ?t + totalRemoved ?t = (\<Sum>r\<leftarrow>data. ?a r)"
    by (simp add: sum_list_enumerate_snd)
  show ?thesis using assms(1) v r s
    by (simp add: processData_def summarize_def Let_def)
qed

theorem amounts_add_up_witness:
  "(\<exists>res. processData sampleHost sampleClock sampleRows sampleConfig = Inr res
      \<and> total_amount_valid (summary res) + total_amount_removed (summary res) = 1734.56)
   \<and> (\<Sum>r\<leftarrow>sampleRows. parseAmount sampleHost (getProp r (amount (mapping sampleConfig))))
       = 1734.56
   \<and> amount (mapping sampleConfig) = ''Valor''"
proof -
  have m: "missingCols sampleRows (mapping sampleConfig) = Inr []" by code_simp
  have c: "amount (mapping sampleConfig) \<notin> annotationCols"
    by (simp add: annotationCols_def sampleConfig_def sampleMapping_def)
  have a: "amount (mapping sampleConfig) = ''Valor''"
    by (simp add: sampleConfig_def sampleMapping_def)
  have t: "(\<Sum>r\<leftarrow>sampleRows. parseAmount sampleHost (getProp r (amount (mapping sampleConfig))))
       = 1734.56"
    unfolding a by (simp add: sampleRows_def sample_amounts)
  from amounts_add_up [OF m c, of sampleHost sampleClock] t a show ?thesis by auto
qed

text \<open>
  The claim as stated fails when the amount column is \<^verbatim>\<open>Status_Higienizacao\<close>: the
  input cell holds 100, the annotation overwrites it with the status, the loop
  parses the status as 0.
\<close>

theorem amounts_add_up_counterexample:
  "missingCols [rowAmountInStatus] (mapping amountInStatusConfig) = Inr []
   \<and> map_sum id (\<lambda>res. total_amount_valid (summary res) + total_amount_removed (summary res))
        (processData sampleHost sampleClock [rowAmountInStatus] amountInStatusConfig) = Inr 0
   \<and> (\<Sum>r\<leftarrow>[rowAmountInStatus].
         parseAmount sampleHost (getProp r (amount (mapping amountInStatusConfig)))) = 100"
proof -
  have m: "missingCols [rowAmountInStatus] (mapping amountInStatusConfig) = Inr []" by code_simp
  have c: "classifyRow sampleHost (DateAt 2024 5 15 0) amountInStatusConfig rowAmountInStatus
             = (Valido, [])" by code_simp
  have a: "amount (mapping amountInStatusConfig) = ''Status_Higienizacao''"
    by (simp add: amountInStatusConfig_def)
  have p: "parseAmount sampleHost (CStr Valido) = 0" by code_simp
  have i: "parseAmount sampleHost (getProp rowAmountInStatus ''Status_Higienizacao'') = 100"
    by code_simp
  have "map_sum id (\<lambda>res. total_amount_valid (summary res) + total_amount_removed (summary res))
        (processData sampleHost sampleClock [rowAmountInStatus] amountInStatusConfig) = Inr 0"
    using m by (simp add: processData_def Let_def processRows_def sampleClock_def c summarize_def
        tallyRow_def countStatus_def emptyTally_def a p)
  with m i a show ?thesis by simp
qed

section \<open>Classifying again\<close>

lemma classifyRow_mapped_cols:
  assumes "\<forall>c \<in> set (mappedCols (mapping config)). getProp r' c = getProp r c"
  shows "classifyRow h now config r' = classifyRow h now config r"
proof -
  have d: "tempDate h config r' = tempDate h config r"
    and a: "tempAmount h config r' = tempAmount h config r"
    and n: "tempName h config r' = tempName h config r"
    using assms by (simp_all add: mappedCols_def tempDate_def tempAmount_def tempName_def)
  have c: "tempDoc h config r' = tempDoc h config r"
    using assms by (simp add: mappedCols_def tempDoc_def split: option.splits)
  have t: "tempTribute h config r' = tempTribute h config r"
    using assms by (simp add: mappedCols_def tempTribute_def split: option.splits)
  have p: "isPrescribed h now config r' = isPrescribed h now config r"
    by (simp add: isPrescribed_def d)
  have b: "belowThreshold h config r' = belowThreshold h config r"
    by (simp add: belowThreshold_def a)
  have e: "isExemptTribute h config r' = isExemptTribute h config r"
    by (simp add: isExemptTribute_def t)
  have bn: "isBadName h config r' = isBadName h config r"
    by (simp add: isBadName_def n)
  have bd: "isBadDoc h config r' = isBadDoc h config r"
    by (simp add: isBadDoc_def c)
  show ?thesis
    unfolding classifyRow_cascade p b e bn bd n by (rule refl)
qed

lemma classifyRow_annotate:
  assumes "set (mappedCols (mapping config)) \<inter> annotationCols = {}"
  shows "classifyRow h now config (annotate r st) = classifyRow h now config r"
proof (rule classifyRow_mapped_cols, rule ballI)
  fix c
  assume "c \<in> set (mappedCols (mapping config))"
  with assms have "c \<noteq> ''Status_Higienizacao''" "c \<noteq> ''Motivo_Higienizacao''"
    by (auto simp: annotationCols_def)
  then show "getProp (annotate r st) c = getProp r c" by (rule getProp_annotate_other)
qed

lemma classifyRow_clock:
  assumes "isMapped (reference_date (prescription config))
           \<or> \<not> prescription_enabled (prescription config)"
  shows "classifyRow h now config r = classifyRow h now' config r"
proof (cases "prescription_enabled (prescription config)")
  case True
  with assms have "refDate h now config = refDate h now' config"
    by (auto simp: refDate_def isMapped_def split: option.splits)
  then have c: "cutoffDate h now config = cutoffDate h now' config"
    by (simp add: cutoffDate_def)
  have p: "isPrescribed h now config r = isPrescribed h now' config r"
    unfolding isPrescribed_def c by (rule refl)
  show ?thesis
    unfolding classifyRow_cascade p c by (rule refl)
next
  case False
  then show ?thesis by (simp add: classifyRow_cascade)
qed

lemma processRows_nth:
  "i < length data \<Longrightarrow>
     processRows h clock config data ! i
       = annotate (data ! i) (classifyRow h (clock i) config (data ! i))"
  by (simp add: processRows_def nth_enumerate_eq)

lemma getProp_annotate_motivo [simp]:
  "getProp (annotate r st) ''Motivo_Higienizacao'' = CStr (snd st)"
  by (simp add: getProp_def annotate_def)

lemma annotate_twice: "annotate (annotate r st) st = annotate r st"
  by (simp add: annotate_def)

lemma ref_classified:
  "classifyRow sampleHost (DateAt 2024 0 10 0) refConfig rowPlain = (Valido, [])"
  "classifyRow sampleHost (DateAt 2024 0 10 0) refConfig rowOldMunicipio
     = (Prescrito, ''Vencimento anterior a 15/06/2019'')"
  "classifyRow sampleHost (DateAt 2024 0 10 0) refConfig rowShortName
     = (Dados_Incompletos, motivo_incompleto)"
  by code_simp+

text \<open>
  Claim C9, as the source has it. The status and the reason of a row are a function of
  the cells of the mapped columns, the mapping, the configuration and, when
  prescription is enabled with no reference date, the clock. Running the rows through
  the classification again, annotated, returns the same annotated rows, provided no
  mapped column is one of the two columns the annotation writes and either a
  reference date is configured, or prescription is disabled, or the clock reads the
  same for each row. The result for a row depends on no other row and on no position.
\<close>

theorem reclassification_stable:
  assumes "set (mappedCols (mapping config)) \<inter> annotationCols = {}"
    and "isMapped (reference_date (prescription config))
         \<or> \<not> prescription_enabled (prescription config)
         \<or> (\<forall>i < length data. clock' i = clock i)"
  shows "processRows h clock' config (processRows h clock config data)
           = processRows h clock config data
    \<and> (\<forall>i < length data.
          processRows h clock config data ! i
            = annotate (data ! i) (classifyRow h (clock i) config (data ! i)))
    \<and> (\<forall>r st now. classifyRow h now config (annotate r st) = classifyRow h now config r)"
proof (intro conjI allI impI)
  show "processRows h clock' config (processRows h clock config data)
           = processRows h clock config data"
  proof (rule nth_equalityI)
    show "length (processRows h clock' config (processRows h clock config data))
            = length (processRows h clock config data)" by simp
  next
    fix i
    assume "i < length (processRows h clock' config (processRows h clock config data))"
    then have i: "i < length data" by simp
    let ?d = "data ! i"
    let ?st = "classifyRow h (clock i) config ?d"
    have same: "classifyRow h (clock' i) config ?d = ?st"
    proof (cases "\<forall>i < length data. clock' i = clock i")
      case True
      with i show ?thesis by simp
    next
      case False
      with assms(2) show ?thesis by (intro classifyRow_clock) blast
    qed
    have "processRows h clock' config (processRows h clock config data) ! i
            = annotate (annotate ?d ?st) (classifyRow h (clock' i) config (annotate ?d ?st))"
      using i by (simp add: processRows_nth)
    also have "\<dots> = annotate (annotate ?d ?st) ?st"
      by (simp add: classifyRow_annotate [OF assms(1)] same)
    also have "\<dots> = processRows h clock config data ! i"
      using i by (simp add: processRows_nth annotate_twice)
    finally show "processRows h clock' config (processRows h clock config data) ! i
            = processRows h clock config data ! i" .
  qed
next
  fix i
  assume "i < length data"
  then show "processRows h clock config data ! i
            = annotate (data ! i) (classifyRow h (clock i) config (data ! i))"
    by (rule processRows_nth)
next
  fix r st now
  show "classifyRow h now config (annotate r st) = classifyRow h now config r"
    by (rule classifyRow_annotate [OF assms(1)])
qed

theorem reclassification_stable_witness:
  "processRows sampleHost sampleClock refConfig (processRows sampleHost earlyClock refConfig sampleRows)
     = processRows sampleHost earlyClock refConfig sampleRows
   \<and> map (\<lambda>r. getProp r ''Status_Higienizacao'')
        (processRows sampleHost earlyClock refConfig sampleRows)
       = [CStr Valido, CStr Prescrito, CStr Dados_Incompletos]
   \<and> reference_date (prescription refConfig) = Some ''2024-06-15''"
proof -
  have c: "set (mappedCols (mapping refConfig)) \<inter> annotationCols = {}"
    by (simp add: mappedCols_def refConfig_def sampleConfig_def sampleMapping_def
        annotationCols_def)
  have r: "reference_date (prescription refConfig) = Some ''2024-06-15''"
    by (simp add: refConfig_def)
  then have m: "isMapped (reference_date (prescription refConfig))
         \<or> \<not> prescription_enabled (prescription refConfig)
         \<or> (\<forall>i < length sampleRows. sampleClock i = earlyClock i)"
    by (simp add: isMapped_def)
  have s: "map (\<lambda>r. getProp r ''Status_Higienizacao'')
        (processRows sampleHost earlyClock refConfig sampleRows)
       = [CStr Valido, CStr Prescrito, CStr Dados_Incompletos]"
    by (simp add: processRows_def sampleRows_def earlyClock_def ref_classified)
  from reclassification_stable [OF c m, of sampleHost] s r show ?thesis by blast
qed

text \<open>
  The claim as stated fails with the default configuration, which has no reference
  date: a row due on 15 March 2019 is \<open>Valido\<close> when classified on 10 January 2024
  and \<open>Prescrito\<close> when the annotated row is classified again on 15 June 2024.
\<close>

theorem reclassification_clock_counterexample:
  "prescription_enabled (prescription sampleConfig)
   \<and> reference_date (prescription sampleConfig) = None
   \<and> map (\<lambda>r. (getProp r ''Status_Higienizacao'', getProp r ''Motivo_Higienizacao''))
        (processRows sampleHost earlyClock sampleConfig [rowDue2019])
       = [(CStr Valido, CStr [])]
   \<and> map (\<lambda>r. (getProp r ''Status_Higienizacao'', getProp r ''Motivo_Higienizacao''))
        (processRows sampleHost sampleClock sampleConfig
          (processRows sampleHost earlyClock sampleConfig [rowDue2019]))
       = [(CStr Prescrito, CStr ''Vencimento anterior a 15/06/2019'')]"
proof -
  have e: "classifyRow sampleHost (DateAt 2024 0 10 0) sampleConfig rowDue2019 = (Valido, [])"
    by code_simp
  have l: "classifyRow sampleHost (DateAt 2024 5 15 0) sampleConfig
             (annotate rowDue2019 (Valido, []))
           = (Prescrito, ''Vencimento anterior a 15/06/2019'')"
    by code_simp
  have c: "prescription_enabled (prescription sampleConfig)"
    "reference_date (prescription sampleConfig) = None"
    by (simp_all add: sampleConfig_def)
  have "map (\<lambda>r. (getProp r ''Status_Higienizacao'', getProp r ''Motivo_Higienizacao''))
        (processRows sampleHost earlyClock sampleConfig [rowDue2019])
       = [(CStr Valido, CStr [])]"
    by (simp add: processRows_def earlyClock_def e)
  moreover have "map (\<lambda>r. (getProp r ''Status_Higienizacao'', getProp r ''Motivo_Higienizacao''))
        (processRows sampleHost sampleClock sampleConfig
          (processRows sampleHost earlyClock sampleConfig [rowDue2019]))
       = [(CStr Prescrito, CStr ''Vencimento anterior a 15/06/2019'')]"
    by (simp add: processRows_def earlyClock_def sampleClock_def e l)
  ultimately show ?thesis using c by simp
qed

section \<open>Remarks on the earlier copy\<close>

text \<open>The earlier copy reads the number 2019 as a serial date, and its document check
  fires on every row when the check is requested and no document column is mapped.\<close>

lemma parseDate_earlier_serial:
  "parseDate_earlier sampleHost (CNum 2019) = Some (DateAt 1905 6 11 0)"
  by code_simp

lemma isBadDoc_earlier_unmapped:
  assumes "check_cpf_cnpj (incomplete config)" and "\<not> isMapped (cpf_cnpj (mapping config))"
  shows "isBadDoc_earlier h config r"
  using assms by (simp add: isBadDoc_earlier_def tempDoc_def isMapped_def split: option.splits)

end
